theory Spec2Isabelle
  imports Complex_Main
begin

section \<open>The workout screen's data model\<close>

text \<open>
  The interfaces of the workout screen (\<^verbatim>\<open>src/app/(tabs)/index.tsx\<close>, lines 860-887).
  A TypeScript \<^verbatim>\<open>number\<close> is an IEEE double. Where the program only ever stores whole
  numbers (ids, set numbers, reps, seconds) it is modelled by \<^typ>\<open>int\<close>: whole numbers
  below \<open>2 ^ 53\<close> in magnitude are doubles, and sums and differences of them that stay
  below it are exact. A weight is the value of a finite double, a \<^typ>\<open>rat\<close>; the
  arithmetic on weights rounds as the program's does (section on numbers below). NaN and
  the infinities are outside the model: \<^verbatim>\<open>parseFloat(text) || 0\<close> never stores NaN, and
  an infinity needs an entered weight or a result beyond the largest double, about
  \<open>1.8e308\<close>.
  An optional field is an \<^typ>\<open>'a option\<close> (\<open>None\<close> is \<^verbatim>\<open>undefined\<close>).
  The optional \<^verbatim>\<open>id\<close> fields of WorkoutSet and ActiveExercise are never written or
  read by the screen and are left out.
\<close>

record Exercise =
  exercise_id :: int
  name :: string
  category :: string
  primary_muscle :: string
  equipment :: string
  difficulty_level :: int
  instructions :: string

record WorkoutSet =
  set_number :: int
  reps :: int
  weight :: rat
  completed :: bool
  is_warmup :: bool
  rest_time_seconds :: "int option"
  rpe :: "int option"
  set_notes :: "string option"

record ActiveExercise =
  exercise :: Exercise
  sets :: "WorkoutSet list"
  exercise_notes :: "string option"

text \<open>
  The component state of \<^verbatim>\<open>WorkoutScreen\<close> that the session functions read and write
  (the \<^verbatim>\<open>useState\<close> cells of lines 910-922). A \<^verbatim>\<open>Date\<close> is its number of
  milliseconds since the epoch.
\<close>

record WorkoutScreen =
  isWorkoutActive :: bool
  workoutStartTime :: "int option"
  activeExercises :: "ActiveExercise list"
  showExerciseModal :: bool
  timer :: int
  showRestTimer :: bool
  currentRestTime :: int
  workoutNotes :: string

text \<open>
  Reading a property of \<^verbatim>\<open>undefined\<close> throws a TypeError; the string names the
  expression that was undefined.
\<close>

datatype js_error = TypeError string

section \<open>Numbers\<close>

text \<open>
  The arithmetic of JavaScript numbers on finite values: the exact result, rounded to the
  nearest double (53 significant bits, ties to the even significand, gradual underflow
  below \<open>2 ^ -1022\<close>). \<open>bitlen n\<close> is the number of binary digits of a positive whole
  number, \<open>exponent x\<close> the \<open>e\<close> with \<open>2 ^ e \<le> |x| < 2 ^ (e + 1)\<close>, and \<open>round64 x\<close> the
  double nearest to \<open>x\<close>. So \<^verbatim>\<open>0.1 * 3\<close> is \<open>0.30000000000000004\<close> and
  \<^verbatim>\<open>100 * (1 + 3 / 30)\<close> is \<open>110.00000000000001\<close>, as in the program.
\<close>

function bitlen :: "int \<Rightarrow> int" where
  "bitlen n = (if n \<le> 0 then 0 else 1 + bitlen (n div 2))"
  by pat_completeness auto
termination
  by (relation "measure nat") auto

declare bitlen.simps [simp del]

definition pow2 :: "int \<Rightarrow> rat" where
  "pow2 e = (if 0 \<le> e then 2 ^ nat e else 1 / 2 ^ nat (- e))"

definition exponent :: "rat \<Rightarrow> int" where
  "exponent x =
     (if 1 \<le> \<bar>x\<bar> then bitlen \<lfloor>\<bar>x\<bar>\<rfloor> - 1
      else - bitlen (\<lceil>1 / \<bar>x\<bar>\<rceil> - 1))"

definition round_half_even :: "rat \<Rightarrow> int" where
  "round_half_even x =
     (let f = \<lfloor>x\<rfloor>; d = x - of_int f
      in if d < 1 / 2 then f else if 1 / 2 < d then f + 1 else if even f then f else f + 1)"

definition round64 :: "rat \<Rightarrow> rat" where
  "round64 x =
     (if x = 0 then 0
      else let q = max (exponent x - 52) (- 1074)
           in sgn x * of_int (round_half_even (\<bar>x\<bar> / pow2 q)) * pow2 q)"

text \<open>
  The operators \<^verbatim>\<open>+\<close>, \<^verbatim>\<open>*\<close> and \<^verbatim>\<open>/\<close> on numbers (the program divides by the
  constant 30 only).
\<close>

definition plus64 :: "rat \<Rightarrow> rat \<Rightarrow> rat" where
  "plus64 a b = round64 (a + b)"

definition times64 :: "rat \<Rightarrow> rat \<Rightarrow> rat" where
  "times64 a b = round64 (a * b)"

definition divide64 :: "rat \<Rightarrow> rat \<Rightarrow> rat" where
  "divide64 a b = round64 (a / b)"

section \<open>Session operations\<close>

text \<open>\<^verbatim>\<open>startWorkout\<close> (lines 1024-1028); the argument is \<^verbatim>\<open>new Date()\<close>.\<close>

definition startWorkout :: "int \<Rightarrow> WorkoutScreen \<Rightarrow> WorkoutScreen" where
  "startWorkout now st = st\<lparr>isWorkoutActive := True, workoutStartTime := Some now, timer := 0\<rparr>"

text \<open>\<^verbatim>\<open>resetWorkout\<close> (lines 1161-1167).\<close>

definition resetWorkout :: "WorkoutScreen \<Rightarrow> WorkoutScreen" where
  "resetWorkout st =
     st\<lparr>isWorkoutActive := False, workoutStartTime := None, activeExercises := [],
        timer := 0, workoutNotes := ''''\<rparr>"

text \<open>\<^verbatim>\<open>addExercise\<close> (lines 1169-1182).\<close>

definition addExercise :: "Exercise \<Rightarrow> WorkoutScreen \<Rightarrow> WorkoutScreen" where
  "addExercise ex st =
     (let newActiveExercise =
        \<lparr>exercise = ex,
         sets = [\<lparr>set_number = 1, reps = 0, weight = 0, completed = False, is_warmup = True,
                  rest_time_seconds = None, rpe = None, set_notes = None\<rparr>],
         exercise_notes = None\<rparr>
      in st\<lparr>activeExercises := activeExercises st @ [newActiveExercise],
            showExerciseModal := False\<rparr>)"

text \<open>
  \<^verbatim>\<open>addSet\<close> (lines 1184-1197). \<^verbatim>\<open>updatedExercises[exerciseIndex]\<close> is
  \<^verbatim>\<open>undefined\<close> for an index outside the array, and \<^verbatim>\<open>sets[sets.length - 1]\<close> is
  \<^verbatim>\<open>undefined\<close> for an empty array; reading a property of either throws. The copy
  \<^verbatim>\<open>[...activeExercises]\<close> is shallow, but the old array is dropped by
  \<^verbatim>\<open>setActiveExercises\<close>, so the new state is the only one that is observed.
\<close>

definition addSet :: "nat \<Rightarrow> WorkoutScreen \<Rightarrow> js_error + WorkoutScreen" where
  "addSet exerciseIndex st =
     (let updatedExercises = activeExercises st in
      if \<not> exerciseIndex < length updatedExercises
      then Inl (TypeError ''updatedExercises[exerciseIndex]'')
      else
        let ae = updatedExercises ! exerciseIndex in
        (case rev (sets ae) of
           [] \<Rightarrow> Inl (TypeError ''lastSet'')
         | lastSet # _ \<Rightarrow>
             let newSet =
               \<lparr>set_number = set_number lastSet + 1, reps = reps lastSet,
                weight = weight lastSet, completed = False, is_warmup = False,
                rest_time_seconds = rest_time_seconds lastSet, rpe = None, set_notes = None\<rparr>
             in Inr (st\<lparr>activeExercises :=
                         updatedExercises[exerciseIndex := ae\<lparr>sets := sets ae @ [newSet]\<rparr>]\<rparr>)))"

text \<open>
  \<^verbatim>\<open>removeSet\<close> (lines 1222-1232): \<^verbatim>\<open>filter((_, index) => index !== setIndex)\<close>
  drops the element at \<^verbatim>\<open>setIndex\<close> (none when the index is past the end), and the
  \<^verbatim>\<open>forEach\<close> writes \<^verbatim>\<open>index + 1\<close> into every remaining set.
\<close>

definition filter_index :: "nat \<Rightarrow> 'a list \<Rightarrow> 'a list" where
  "filter_index i xs = map snd (filter (\<lambda>(index, _). index \<noteq> i) (zip [0..<length xs] xs))"

definition renumber :: "WorkoutSet list \<Rightarrow> WorkoutSet list" where
  "renumber xs = map (\<lambda>(index, s). s\<lparr>set_number := int index + 1\<rparr>) (zip [0..<length xs] xs)"

definition removeSet :: "nat \<Rightarrow> nat \<Rightarrow> WorkoutScreen \<Rightarrow> js_error + WorkoutScreen" where
  "removeSet exerciseIndex setIndex st =
     (let updatedExercises = activeExercises st in
      if \<not> exerciseIndex < length updatedExercises
      then Inl (TypeError ''updatedExercises[exerciseIndex]'')
      else
        let ae = updatedExercises ! exerciseIndex in
        Inr (st\<lparr>activeExercises :=
                  updatedExercises[exerciseIndex :=
                    ae\<lparr>sets := renumber (filter_index setIndex (sets ae))\<rparr>]\<rparr>))"

text \<open>
  A sequence of add-set and remove-set requests on one exercise; the first request that
  throws ends the run with its error.
\<close>

datatype set_op = AddSet | RemoveSet nat

fun apply_set_op :: "nat \<Rightarrow> set_op \<Rightarrow> WorkoutScreen \<Rightarrow> js_error + WorkoutScreen" where
  "apply_set_op exerciseIndex AddSet st = addSet exerciseIndex st"
| "apply_set_op exerciseIndex (RemoveSet setIndex) st = removeSet exerciseIndex setIndex st"

fun apply_set_ops :: "nat \<Rightarrow> set_op list \<Rightarrow> WorkoutScreen \<Rightarrow> js_error + WorkoutScreen" where
  "apply_set_ops exerciseIndex [] st = Inr st"
| "apply_set_ops exerciseIndex (op # ops) st =
     (case apply_set_op exerciseIndex op st of
        Inl e \<Rightarrow> Inl e
      | Inr st' \<Rightarrow> apply_set_ops exerciseIndex ops st')"

text \<open>Set numbers are dense when the k-th set (counting from 1) carries the number k.\<close>

definition dense :: "WorkoutSet list \<Rightarrow> bool" where
  "dense xs = (map set_number xs = map (\<lambda>index. int index + 1) [0..<length xs])"

section \<open>The relational store\<close>

text \<open>
  The SQLite database behind \<^verbatim>\<open>db.runAsync\<close> and \<^verbatim>\<open>db.getFirstAsync\<close>, as far as the
  statements of the workout screen exercise it. A value bound to a statement or stored in
  a cell is NULL, a whole number, a fractional number, a text, a boolean or the ISO text of
  an instant (\<^verbatim>\<open>Date.toISOString()\<close>, kept as the instant's milliseconds).
\<close>

datatype sqlval = SNull | SInt int | SNum rat | SText string | SBool bool | SDate int

type_synonym row = "(string \<times> sqlval) list"

text \<open>
  A column as \<^verbatim>\<open>CREATE TABLE\<close> declares it: NOT NULL, UNIQUE, DEFAULT (\<open>SNull\<close> when
  there is none), \<^verbatim>\<open>CHECK(c BETWEEN lo AND hi)\<close> and \<^verbatim>\<open>FOREIGN KEY (c) REFERENCES t (id)\<close>.
  Every table of the schema starts with \<^verbatim>\<open>id INTEGER PRIMARY KEY AUTOINCREMENT\<close>; that
  column is implicit here, and \<open>last_id\<close> is the largest row id the table ever held.
\<close>

record column =
  cname :: string
  notnull :: bool
  uniq :: bool
  dflt :: sqlval
  check_between :: "(int \<times> int) option"
  references :: "string option"

record table =
  columns :: "column list"
  rows :: "row list"
  last_id :: int

type_synonym database = "string \<Rightarrow> table option"

definition col :: "string \<Rightarrow> column" where
  "col n = \<lparr>cname = n, notnull = False, uniq = False, dflt = SNull, check_between = None,
             references = None\<rparr>"

definition not_null :: "column \<Rightarrow> column" where
  "not_null c = c\<lparr>notnull := True\<rparr>"

definition unique :: "column \<Rightarrow> column" where
  "unique c = c\<lparr>uniq := True\<rparr>"

definition default :: "sqlval \<Rightarrow> column \<Rightarrow> column" where
  "default v c = c\<lparr>dflt := v\<rparr>"

definition between :: "int \<Rightarrow> int \<Rightarrow> column \<Rightarrow> column" where
  "between lo hi c = c\<lparr>check_between := Some (lo, hi)\<rparr>"

definition fk :: "string \<Rightarrow> column \<Rightarrow> column" where
  "fk t c = c\<lparr>references := Some t\<rparr>"

definition empty_table :: "column list \<Rightarrow> table" where
  "empty_table cs = \<lparr>columns = cs, rows = [], last_id = 0\<rparr>"

definition cell :: "row \<Rightarrow> string \<Rightarrow> sqlval" where
  "cell r c = (case map_of r c of Some v \<Rightarrow> v | None \<Rightarrow> SNull)"

definition table_rows :: "database \<Rightarrow> string \<Rightarrow> row list" where
  "table_rows db t = (case db t of None \<Rightarrow> [] | Some tb \<Rightarrow> rows tb)"

definition column_names :: "table \<Rightarrow> string list" where
  "column_names tb = ''id'' # map cname (columns tb)"

subsection \<open>The schema\<close>

text \<open>
  The tables \<^verbatim>\<open>initDatabase\<close> creates (DatabaseContext, \<^verbatim>\<open>src/unnamed/part_006\<close>, lines
  55-185), in the order of the source. \<^verbatim>\<open>DEFAULT CURRENT_TIMESTAMP\<close> is kept as the text
  of the keyword: the clock is outside the model and no statement of the screen reads
  those columns.
\<close>

definition current_timestamp :: sqlval where
  "current_timestamp = SText ''CURRENT_TIMESTAMP''"

definition users_columns :: "column list" where
  "users_columns =
     [not_null (col ''name''),
      not_null (unique (col ''email'')),
      not_null (col ''password_hash''),
      col ''profile_picture_uri'',
      col ''bio'',
      col ''weight'',
      col ''height'',
      col ''gender'',
      default (SText ''kg'') (col ''preferred_weight_unit''),
      default (SText ''light'') (col ''theme_preference''),
      default current_timestamp (col ''created_at''),
      default current_timestamp (col ''updated_at'')]"

definition exercises_columns :: "column list" where
  "exercises_columns =
     [not_null (col ''name''),
      not_null (col ''category''),
      not_null (col ''primary_muscle''),
      col ''secondary_muscles'',
      col ''equipment'',
      between 1 5 (col ''difficulty_level''),
      col ''instructions'',
      col ''form_video_uri'',
      col ''form_image_uri'',
      default (SBool False) (col ''is_custom''),
      fk ''users'' (col ''user_id''),
      default current_timestamp (col ''created_at'')]"

definition workout_templates_columns :: "column list" where
  "workout_templates_columns =
     [not_null (fk ''users'' (col ''user_id'')),
      not_null (col ''name''),
      col ''description'',
      default (SBool False) (col ''is_favorite''),
      default current_timestamp (col ''created_at''),
      default current_timestamp (col ''updated_at'')]"

definition template_exercises_columns :: "column list" where
  "template_exercises_columns =
     [not_null (fk ''workout_templates'' (col ''template_id'')),
      not_null (fk ''exercises'' (col ''exercise_id'')),
      not_null (col ''order_index''),
      default (SInt 3) (col ''default_sets''),
      default (SInt 10) (col ''default_reps''),
      default (SInt 0) (col ''default_weight''),
      default (SInt 60) (col ''rest_time_seconds''),
      col ''notes'']"

definition workouts_columns :: "column list" where
  "workouts_columns =
     [not_null (fk ''users'' (col ''user_id'')),
      fk ''workout_templates'' (col ''template_id''),
      col ''name'',
      not_null (col ''start_time''),
      col ''end_time'',
      col ''duration_seconds'',
      default (SInt 0) (col ''total_volume''),
      col ''notes'',
      default current_timestamp (col ''created_at'')]"

definition workout_exercises_columns :: "column list" where
  "workout_exercises_columns =
     [not_null (fk ''workouts'' (col ''workout_id'')),
      not_null (fk ''exercises'' (col ''exercise_id'')),
      not_null (col ''order_index''),
      col ''notes'']"

definition workout_sets_columns :: "column list" where
  "workout_sets_columns =
     [not_null (fk ''workouts'' (col ''workout_id'')),
      not_null (fk ''exercises'' (col ''exercise_id'')),
      not_null (col ''set_number''),
      default (SInt 0) (col ''reps''),
      default (SInt 0) (col ''weight''),
      default (SText ''kg'') (col ''weight_unit''),
      default (SBool False) (col ''completed''),
      default (SBool False) (col ''is_warmup''),
      col ''rest_time_seconds'',
      between 1 10 (col ''rpe''),
      col ''notes'',
      default current_timestamp (col ''created_at'')]"

definition personal_records_columns :: "column list" where
  "personal_records_columns =
     [not_null (fk ''users'' (col ''user_id'')),
      not_null (fk ''exercises'' (col ''exercise_id'')),
      not_null (col ''record_type''),
      not_null (col ''value''),
      col ''reps'',
      col ''weight'',
      col ''weight_unit'',
      fk ''workouts'' (col ''workout_id''),
      default current_timestamp (col ''achieved_at'')]"

definition user_settings_columns :: "column list" where
  "user_settings_columns =
     [not_null (unique (fk ''users'' (col ''user_id''))),
      default (SBool True) (col ''rest_timer_enabled''),
      default (SInt 60) (col ''default_rest_time''),
      default (SBool True) (col ''auto_start_timer''),
      default (SBool True) (col ''sound_enabled''),
      default (SBool True) (col ''vibration_enabled''),
      default (SBool False) (col ''dark_mode''),
      default (SBool True) (col ''backup_enabled''),
      default current_timestamp (col ''created_at''),
      default current_timestamp (col ''updated_at'')]"

text \<open>
  The database right after \<^verbatim>\<open>initDatabase\<close> has dropped and re-created every table
  (the exercise library is seeded afterwards, by plain inserts).
\<close>

definition initDatabase :: database where
  "initDatabase =
     Map.empty
       (''users'' \<mapsto> empty_table users_columns,
        ''exercises'' \<mapsto> empty_table exercises_columns,
        ''workout_templates'' \<mapsto> empty_table workout_templates_columns,
        ''template_exercises'' \<mapsto> empty_table template_exercises_columns,
        ''workouts'' \<mapsto> empty_table workouts_columns,
        ''workout_exercises'' \<mapsto> empty_table workout_exercises_columns,
        ''workout_sets'' \<mapsto> empty_table workout_sets_columns,
        ''personal_records'' \<mapsto> empty_table personal_records_columns,
        ''user_settings'' \<mapsto> empty_table user_settings_columns)"

subsection \<open>Statements\<close>

text \<open>
  \<^verbatim>\<open>INSERT [OR REPLACE] INTO t (cols) VALUES (?, ...)\<close> with its bound values.
\<close>

record insert_stmt =
  or_replace :: bool
  into :: string
  cols :: "string list"
  vals :: "sqlval list"

datatype sql_error =
    NoSuchTable string
  | NoSuchColumn string string
  | BindCount
  | NotNullFailed string string
  | CheckFailed string string
  | UniqueFailed string
  | ForeignKeyFailed

text \<open>
  The value a statement gives a column: the bound value, or the column's default when the
  statement does not name the column. Under OR REPLACE a NULL bound to a NOT NULL column
  with a default is replaced by the default.
\<close>

definition value_for :: "insert_stmt \<Rightarrow> column \<Rightarrow> sqlval" where
  "value_for s c =
     (case map_of (zip (cols s) (vals s)) (cname c) of
        None \<Rightarrow> dflt c
      | Some v \<Rightarrow> if v = SNull \<and> or_replace s \<and> notnull c then dflt c else v)"

text \<open>
  The row id: the bound \<^verbatim>\<open>id\<close> when the statement gives one, and otherwise
  (AUTOINCREMENT) one more than the largest id the table ever held.
\<close>

definition new_rowid :: "table \<Rightarrow> insert_stmt \<Rightarrow> int" where
  "new_rowid tb s =
     (case map_of (zip (cols s) (vals s)) ''id'' of
        Some (SInt k) \<Rightarrow> k
      | _ \<Rightarrow> last_id tb + 1)"

definition new_row :: "table \<Rightarrow> insert_stmt \<Rightarrow> row" where
  "new_row tb s =
     (''id'', SInt (new_rowid tb s)) # map (\<lambda>c. (cname c, value_for s c)) (columns tb)"

definition check_ok :: "column \<Rightarrow> sqlval \<Rightarrow> bool" where
  "check_ok c v =
     (case check_between c of
        None \<Rightarrow> True
      | Some (lo, hi) \<Rightarrow>
          (case v of
             SNull \<Rightarrow> True
           | SInt k \<Rightarrow> lo \<le> k \<and> k \<le> hi
           | SNum q \<Rightarrow> of_int lo \<le> q \<and> q \<le> of_int hi
           | SBool b \<Rightarrow> lo \<le> (if b then 1 else 0) \<and> (if b then 1 else 0) \<le> hi
           | _ \<Rightarrow> False))"

text \<open>
  Two rows conflict when they agree on the primary key or on a UNIQUE column (NULLs never
  conflict). A plain INSERT fails on a conflict; INSERT OR REPLACE deletes the
  conflicting rows first.
\<close>

definition unique_names :: "table \<Rightarrow> string list" where
  "unique_names tb = ''id'' # map cname (filter uniq (columns tb))"

definition conflicts :: "table \<Rightarrow> row \<Rightarrow> row \<Rightarrow> bool" where
  "conflicts tb r r' =
     list_ex (\<lambda>c. cell r c \<noteq> SNull \<and> cell r' c = cell r c) (unique_names tb)"

definition fk_ok :: "database \<Rightarrow> row \<Rightarrow> column \<Rightarrow> bool" where
  "fk_ok db r c =
     (case references c of
        None \<Rightarrow> True
      | Some t \<Rightarrow>
          cell r (cname c) = SNull \<or>
          list_ex (\<lambda>r'. cell r' ''id'' = cell r (cname c)) (table_rows db t))"

text \<open>
  \<^verbatim>\<open>db.runAsync\<close> of an insert. It throws (\<open>Inl\<close>) and leaves the database as it was when
  the statement does not compile against the schema or a constraint fails; otherwise it
  returns the new database and \<^verbatim>\<open>lastInsertRowId\<close>. Each call commits on its own: the
  screen opens no transaction.
\<close>

definition runAsync :: "database \<Rightarrow> insert_stmt \<Rightarrow> sql_error + database \<times> int" where
  "runAsync db s =
     (case db (into s) of
        None \<Rightarrow> Inl (NoSuchTable (into s))
      | Some tb \<Rightarrow>
          (case find (\<lambda>c. c \<notin> set (column_names tb)) (cols s) of
             Some c \<Rightarrow> Inl (NoSuchColumn (into s) c)
           | None \<Rightarrow>
               if length (vals s) \<noteq> length (cols s) then Inl BindCount
               else
                 let r = new_row tb s in
                 (case find (\<lambda>c. notnull c \<and> cell r (cname c) = SNull) (columns tb) of
                    Some c \<Rightarrow> Inl (NotNullFailed (into s) (cname c))
                  | None \<Rightarrow>
                      (case find (\<lambda>c. \<not> check_ok c (cell r (cname c))) (columns tb) of
                         Some c \<Rightarrow> Inl (CheckFailed (into s) (cname c))
                       | None \<Rightarrow>
                           if \<not> or_replace s \<and> list_ex (conflicts tb r) (rows tb)
                           then Inl (UniqueFailed (into s))
                           else if \<not> list_all (fk_ok db r) (columns tb)
                           then Inl ForeignKeyFailed
                           else
                             Inr (db(into s \<mapsto>
                                    tb\<lparr>rows :=
                                         (if or_replace s
                                          then filter (\<lambda>r'. \<not> conflicts tb r r') (rows tb)
                                          else rows tb) @ [r],
                                       last_id := max (last_id tb) (new_rowid tb s)\<rparr>),
                                  new_rowid tb s)))))"

text \<open>
  \<^verbatim>\<open>db.getFirstAsync('SELECT c FROM t WHERE k1 = ? AND ...')\<close>: the cell \<open>c\<close> of the first
  row, in row order, whose cells equal the bound values; \<open>None\<close> is \<^verbatim>\<open>null\<close>.
\<close>

definition getFirstAsync ::
  "database \<Rightarrow> string \<Rightarrow> string \<Rightarrow> (string \<times> sqlval) list \<Rightarrow> sql_error + sqlval option" where
  "getFirstAsync db c t conds =
     (case db t of
        None \<Rightarrow> Inl (NoSuchTable t)
      | Some tb \<Rightarrow>
          (case find (\<lambda>x. x \<notin> set (column_names tb)) (c # map fst conds) of
             Some x \<Rightarrow> Inl (NoSuchColumn t x)
           | None \<Rightarrow>
               Inr (map_option (\<lambda>r. cell r c)
                      (find (\<lambda>r. list_all (\<lambda>(k, v). cell r k = v) conds) (rows tb)))))"

section \<open>Ending a workout\<close>

text \<open>
  The signed-in user (AuthContext, interface \<^verbatim>\<open>User\<close>; the optional profile fields are
  never read by the screen and are left out).
\<close>

record User =
  user_id :: int
  user_name :: string
  email :: string
  preferred_weight_unit :: string
  theme_preference :: string

text \<open>
  What the screen shows through \<^verbatim>\<open>usePopup\<close>. A confirmation carries the action its
  Confirm button runs; a message is a literal text, the text built for a new 1RM record
  (exercise name, \<^verbatim>\<open>Math.round\<close> of the estimate, weight unit) or the randomly picked
  completion message. Emoji in titles are dropped.
\<close>

datatype confirm_action = ResetWorkout

datatype message =
    Literal string
  | New1RMEstimate string int string
  | WorkoutCompleteMessage

datatype popup =
    ShowConfirmation string message confirm_action
  | ShowSuccess string message
  | ShowError string message

text \<open>The JavaScript idioms \<^verbatim>\<open>x || null\<close> on an optional number and \<^verbatim>\<open>x || ''\<close> on an
  optional text: \<^verbatim>\<open>undefined\<close> and \<^verbatim>\<open>0\<close> are falsy, and so is the empty text.\<close>

definition or_null :: "int option \<Rightarrow> sqlval" where
  "or_null x = (case x of None \<Rightarrow> SNull | Some n \<Rightarrow> if n = 0 then SNull else SInt n)"

definition or_empty :: "string option \<Rightarrow> sqlval" where
  "or_empty x = (case x of None \<Rightarrow> SText '''' | Some s \<Rightarrow> SText s)"

text \<open>
  The total volume of \<^verbatim>\<open>endWorkout\<close> (lines 1046-1054): two nested \<^verbatim>\<open>forEach\<close> loops
  that add \<^verbatim>\<open>weight * reps\<close> of every completed set to an accumulator starting at 0,
  product and sum each rounded as the program's numbers are.
\<close>

definition totalVolume :: "ActiveExercise list \<Rightarrow> rat" where
  "totalVolume exs =
     fold (\<lambda>exercise total.
             fold (\<lambda>s total.
                     if completed s then plus64 total (times64 (weight s) (of_int (reps s)))
                     else total)
               (sets exercise) total)
       exs 0"

text \<open>The three inserts of \<^verbatim>\<open>endWorkout\<close> (lines 1057-1060, 1069-1072, 1078-1092).\<close>

definition workoutInsert :: "User \<Rightarrow> int \<Rightarrow> int \<Rightarrow> WorkoutScreen \<Rightarrow> insert_stmt" where
  "workoutInsert user start endTime st =
     \<lparr>or_replace = False, into = ''workouts'',
      cols = [''user_id'', ''start_time'', ''end_time'', ''duration_seconds'', ''total_volume'',
              ''notes''],
      vals = [SInt (user_id user), SDate start, SDate endTime, SInt ((endTime - start) div 1000),
              SNum (totalVolume (activeExercises st)), SText (workoutNotes st)]\<rparr>"

definition workoutExerciseInsert :: "int \<Rightarrow> ActiveExercise \<Rightarrow> nat \<Rightarrow> insert_stmt" where
  "workoutExerciseInsert workoutId activeExercise i =
     \<lparr>or_replace = False, into = ''workout_exercises'',
      cols = [''workout_id'', ''exercise_id'', ''order_index'', ''notes''],
      vals = [SInt workoutId, SInt (exercise_id (exercise activeExercise)), SInt (int i),
              or_empty (exercise_notes activeExercise)]\<rparr>"

definition workoutSetInsert :: "User \<Rightarrow> int \<Rightarrow> WorkoutSet \<Rightarrow> insert_stmt" where
  "workoutSetInsert user workoutExerciseId s =
     \<lparr>or_replace = False, into = ''workout_sets'',
      cols = [''workout_exercise_id'', ''set_number'', ''reps'', ''weight'', ''weight_unit'',
              ''completed'', ''is_warmup'', ''rest_time_seconds'', ''rpe'', ''notes''],
      vals = [SInt workoutExerciseId, SInt (set_number s), SInt (reps s), SNum (weight s),
              SText (preferred_weight_unit user), SBool (completed s), SBool (is_warmup s),
              or_null (rest_time_seconds s), or_null (rpe s), or_empty (set_notes s)]\<rparr>"

text \<open>
  The body of the \<^verbatim>\<open>try\<close> block up to the last insert (lines 1043-1094): the header
  insert, then for every exercise its row and the rows of its sets. An insert that throws
  ends the write; the database keeps what the earlier inserts did, since each of them
  committed on its own. The result pairs the database with the error or the workout id.
\<close>

fun saveSets :: "database \<Rightarrow> User \<Rightarrow> int \<Rightarrow> WorkoutSet list \<Rightarrow> database \<times> (sql_error + unit)" where
  "saveSets db user workoutExerciseId [] = (db, Inr ())"
| "saveSets db user workoutExerciseId (s # ss) =
     (case runAsync db (workoutSetInsert user workoutExerciseId s) of
        Inl e \<Rightarrow> (db, Inl e)
      | Inr (db', _) \<Rightarrow> saveSets db' user workoutExerciseId ss)"

fun saveExercises ::
  "database \<Rightarrow> User \<Rightarrow> int \<Rightarrow> nat \<Rightarrow> ActiveExercise list \<Rightarrow> database \<times> (sql_error + unit)" where
  "saveExercises db user workoutId i [] = (db, Inr ())"
| "saveExercises db user workoutId i (activeExercise # rest) =
     (case runAsync db (workoutExerciseInsert workoutId activeExercise i) of
        Inl e \<Rightarrow> (db, Inl e)
      | Inr (db1, workoutExerciseId) \<Rightarrow>
          (case saveSets db1 user workoutExerciseId (sets activeExercise) of
             (db2, Inl e) \<Rightarrow> (db2, Inl e)
           | (db2, Inr _) \<Rightarrow> saveExercises db2 user workoutId (i + 1) rest))"

definition saveWorkout ::
  "database \<Rightarrow> User \<Rightarrow> int \<Rightarrow> int \<Rightarrow> WorkoutScreen \<Rightarrow> database \<times> (sql_error + int)" where
  "saveWorkout db user start endTime st =
     (case runAsync db (workoutInsert user start endTime st) of
        Inl e \<Rightarrow> (db, Inl e)
      | Inr (db1, workoutId) \<Rightarrow>
          (case saveExercises db1 user workoutId 0 (activeExercises st) of
             (db2, Inl e) \<Rightarrow> (db2, Inl e)
           | (db2, Inr _) \<Rightarrow> (db2, Inr workoutId)))"

subsection \<open>A write without a transaction\<close>

text \<open>
  What it means for a write to be a plain sequence of statements, in the words of the
  property proved about \<^verbatim>\<open>endWorkout\<close> below, not of the source: a script is finished, or
  it is one insert followed by the script to go on with, which may use the row id that
  insert returned.
\<close>

datatype script = Finished | Insert insert_stmt "int \<Rightarrow> script"

text \<open>
  Running a script with every statement committed on its own. The first statement that
  fails ends the run with its error; the database is then the one the statements before
  it left, rows and all, and the statements after it are never run.
\<close>

primrec run_script :: "script \<Rightarrow> database \<Rightarrow> database \<times> sql_error option" where
  "run_script Finished db = (db, None)"
| "run_script (Insert s next) db =
     (case runAsync db s of
        Inl e \<Rightarrow> (db, Some e)
      | Inr (db', rowid) \<Rightarrow> run_script (next rowid) db')"

text \<open>
  The statements of the workout write in their order: the header; then, for every
  exercise in order, its row (with the workout id the header returned and its position)
  followed by the rows of its sets in order (with the id its row returned).
\<close>

fun setsScript :: "User \<Rightarrow> int \<Rightarrow> WorkoutSet list \<Rightarrow> script \<Rightarrow> script" where
  "setsScript user workoutExerciseId [] then_script = then_script"
| "setsScript user workoutExerciseId (s # ss) then_script =
     Insert (workoutSetInsert user workoutExerciseId s)
       (\<lambda>_. setsScript user workoutExerciseId ss then_script)"

fun exercisesScript :: "User \<Rightarrow> int \<Rightarrow> nat \<Rightarrow> ActiveExercise list \<Rightarrow> script" where
  "exercisesScript user workoutId i [] = Finished"
| "exercisesScript user workoutId i (activeExercise # rest) =
     Insert (workoutExerciseInsert workoutId activeExercise i)
       (\<lambda>workoutExerciseId.
          setsScript user workoutExerciseId (sets activeExercise)
            (exercisesScript user workoutId (i + 1) rest))"

definition workoutScript :: "User \<Rightarrow> int \<Rightarrow> int \<Rightarrow> WorkoutScreen \<Rightarrow> script" where
  "workoutScript user start endTime st =
     Insert (workoutInsert user start endTime st)
       (\<lambda>workoutId. exercisesScript user workoutId 0 (activeExercises st))"

subsection \<open>Personal records\<close>

text \<open>
  \<^verbatim>\<open>checkPersonalRecords\<close> (lines 1110-1159). The sets that count are the completed
  ones that are not warm-ups; \<^verbatim>\<open>Math.max(...)\<close> of their weights is a fold of \<open>max\<close>
  over a non-empty list, and \<^verbatim>\<open>find\<close> returns the first set with that weight.
\<close>

definition completedSets :: "ActiveExercise \<Rightarrow> WorkoutSet list" where
  "completedSets activeExercise =
     filter (\<lambda>s. completed s \<and> \<not> is_warmup s) (sets activeExercise)"

definition maxWeight :: "WorkoutSet \<Rightarrow> WorkoutSet list \<Rightarrow> rat" where
  "maxWeight s ss = fold max (map weight ss) (weight s)"

definition maxWeightSet :: "WorkoutSet list \<Rightarrow> WorkoutSet option" where
  "maxWeightSet ss =
     (case ss of [] \<Rightarrow> None | s # rest \<Rightarrow> find (\<lambda>x. weight x = maxWeight s rest) ss)"

text \<open>
  The Epley formula of line 1124, \<^verbatim>\<open>maxWeight * (1 + maxWeightSet.reps / 30)\<close>: the
  quotient, the sum and the product are rounded one after the other.
\<close>

definition estimated1RM :: "WorkoutSet \<Rightarrow> rat" where
  "estimated1RM s = times64 (weight s) (plus64 1 (divide64 (of_int (reps s)) 30))"

text \<open>The volume of line 1142: \<^verbatim>\<open>reduce\<close> from 0 over the sets that count.\<close>

definition volumeCandidate :: "ActiveExercise \<Rightarrow> rat" where
  "volumeCandidate activeExercise =
     fold (\<lambda>s sum. plus64 sum (times64 (weight s) (of_int (reps s))))
       (completedSets activeExercise) 0"

text \<open>
  The stored record is read with
  \<^verbatim>\<open>SELECT value FROM personal_records WHERE user_id = ? AND exercise_id = ? AND record_type = "1RM"\<close>
  (the double-quoted word is no column, so SQLite reads it as a text). \<^verbatim>\<open>x > existingPR.value\<close>
  is the comparison of JavaScript numbers: NULL counts as 0, a text that is no number
  compares false.
\<close>

definition existingPR :: "database \<Rightarrow> User \<Rightarrow> ActiveExercise \<Rightarrow> string \<Rightarrow> sql_error + sqlval option" where
  "existingPR db user activeExercise record_type =
     getFirstAsync db ''value'' ''personal_records''
       [(''user_id'', SInt (user_id user)),
        (''exercise_id'', SInt (exercise_id (exercise activeExercise))),
        (''record_type'', SText record_type)]"

definition greater_than :: "rat \<Rightarrow> sqlval \<Rightarrow> bool" where
  "greater_than x v =
     (case v of
        SNull \<Rightarrow> x > 0
      | SInt k \<Rightarrow> x > of_int k
      | SNum q \<Rightarrow> x > q
      | SBool b \<Rightarrow> x > (if b then 1 else 0)
      | _ \<Rightarrow> False)"

definition beats :: "rat \<Rightarrow> sqlval option \<Rightarrow> bool" where
  "beats x existing = (case existing of None \<Rightarrow> True | Some v \<Rightarrow> greater_than x v)"

definition oneRMInsert :: "User \<Rightarrow> ActiveExercise \<Rightarrow> WorkoutSet \<Rightarrow> int \<Rightarrow> insert_stmt" where
  "oneRMInsert user activeExercise s workoutId =
     \<lparr>or_replace = True, into = ''personal_records'',
      cols = [''user_id'', ''exercise_id'', ''record_type'', ''value'', ''reps'', ''weight'',
              ''weight_unit'', ''workout_id''],
      vals = [SInt (user_id user), SInt (exercise_id (exercise activeExercise)), SText ''1RM'',
              SNum (estimated1RM s), SInt (reps s), SNum (weight s),
              SText (preferred_weight_unit user), SInt workoutId]\<rparr>"

definition volumeInsert :: "User \<Rightarrow> ActiveExercise \<Rightarrow> int \<Rightarrow> insert_stmt" where
  "volumeInsert user activeExercise workoutId =
     \<lparr>or_replace = True, into = ''personal_records'',
      cols = [''user_id'', ''exercise_id'', ''record_type'', ''value'', ''workout_id''],
      vals = [SInt (user_id user), SInt (exercise_id (exercise activeExercise)), SText ''volume'',
              SNum (volumeCandidate activeExercise), SInt workoutId]\<rparr>"

text \<open>
  \<^verbatim>\<open>Math.round\<close> rounds half up.
\<close>

definition Math_round :: "rat \<Rightarrow> int" where
  "Math_round x = \<lfloor>x + 1 / 2\<rfloor>"

text \<open>
  One round of the loop, in two halves. Each returns the database, the popups shown so
  far and the error of the call that threw, if one did.
\<close>

definition check1RM ::
  "database \<Rightarrow> User \<Rightarrow> int \<Rightarrow> ActiveExercise \<Rightarrow> database \<times> popup list \<times> sql_error option" where
  "check1RM db user workoutId activeExercise =
     (case maxWeightSet (completedSets activeExercise) of
        None \<Rightarrow> (db, [], None)
      | Some s \<Rightarrow>
          (case existingPR db user activeExercise ''1RM'' of
             Inl e \<Rightarrow> (db, [], Some e)
           | Inr existing \<Rightarrow>
               if beats (estimated1RM s) existing
               then (case runAsync db (oneRMInsert user activeExercise s workoutId) of
                       Inl e \<Rightarrow> (db, [], Some e)
                     | Inr (db', _) \<Rightarrow>
                         (db',
                          [ShowSuccess ''New Personal Record!''
                             (New1RMEstimate (name (exercise activeExercise))
                                (Math_round (estimated1RM s)) (preferred_weight_unit user))],
                          None))
               else (db, [], None)))"

definition checkVolume ::
  "database \<Rightarrow> User \<Rightarrow> int \<Rightarrow> ActiveExercise \<Rightarrow> database \<times> sql_error option" where
  "checkVolume db user workoutId activeExercise =
     (case existingPR db user activeExercise ''volume'' of
        Inl e \<Rightarrow> (db, Some e)
      | Inr existing \<Rightarrow>
          if beats (volumeCandidate activeExercise) existing
          then (case runAsync db (volumeInsert user activeExercise workoutId) of
                  Inl e \<Rightarrow> (db, Some e)
                | Inr (db', _) \<Rightarrow> (db', None))
          else (db, None))"

fun checkRecordsLoop ::
  "database \<Rightarrow> User \<Rightarrow> int \<Rightarrow> ActiveExercise list \<Rightarrow> database \<times> popup list \<times> sql_error option" where
  "checkRecordsLoop db user workoutId [] = (db, [], None)"
| "checkRecordsLoop db user workoutId (activeExercise # rest) =
     (if completedSets activeExercise = [] then checkRecordsLoop db user workoutId rest
      else
        (case check1RM db user workoutId activeExercise of
           (db1, shown, Some e) \<Rightarrow> (db1, shown, Some e)
         | (db1, shown, None) \<Rightarrow>
             (case checkVolume db1 user workoutId activeExercise of
                (db2, Some e) \<Rightarrow> (db2, shown, Some e)
              | (db2, None) \<Rightarrow>
                  (case checkRecordsLoop db2 user workoutId rest of
                     (db3, shown', err) \<Rightarrow> (db3, shown @ shown', err)))))"

text \<open>The \<^verbatim>\<open>catch\<close> of \<^verbatim>\<open>checkPersonalRecords\<close> only logs: the function never throws.\<close>

definition checkPersonalRecords ::
  "database \<Rightarrow> User \<Rightarrow> int \<Rightarrow> ActiveExercise list \<Rightarrow> database \<times> popup list" where
  "checkPersonalRecords db user workoutId exs =
     (case checkRecordsLoop db user workoutId exs of (db', shown, _) \<Rightarrow> (db', shown))"

subsection \<open>endWorkout\<close>

text \<open>
  \<^verbatim>\<open>endWorkout\<close> (lines 1030-1108). Its arguments are the signed-in user and the opened
  database (either may be \<^verbatim>\<open>null\<close>), \<^verbatim>\<open>new Date()\<close> taken at the end, and the screen
  state; it returns the database, the screen state and the popups shown, in order.
\<close>

definition endWorkout ::
  "User option \<Rightarrow> database option \<Rightarrow> int \<Rightarrow> WorkoutScreen \<Rightarrow>
     database option \<times> WorkoutScreen \<times> popup list" where
  "endWorkout user db endTime st =
     (case (user, db, workoutStartTime st) of
        (Some u, Some d, Some start) \<Rightarrow>
          if activeExercises st = []
          then (db, st,
                [ShowConfirmation ''End Empty Workout?''
                   (Literal ''You haven't added any exercises. Are you sure you want to end this workout?'')
                   ResetWorkout])
          else
            (case saveWorkout d u start endTime st of
               (d', Inl e) \<Rightarrow>
                 (Some d', st,
                  [ShowError ''Save Error'' (Literal ''Failed to save workout. Please try again.'')])
             | (d', Inr workoutId) \<Rightarrow>
                 (case checkPersonalRecords d' u workoutId (activeExercises st) of
                    (d'', shown) \<Rightarrow>
                      (Some d'', resetWorkout st,
                       shown @ [ShowSuccess ''Workout Complete!'' WorkoutCompleteMessage])))
      | _ \<Rightarrow> (db, st, []))"

text \<open>The Confirm button of a confirmation popup runs its action.\<close>

fun confirm :: "confirm_action \<Rightarrow> WorkoutScreen \<Rightarrow> WorkoutScreen" where
  "confirm ResetWorkout st = resetWorkout st"

text \<open>The rows of a table in the database \<^verbatim>\<open>endWorkout\<close> leaves behind.\<close>

definition stored_rows :: "database option \<Rightarrow> string \<Rightarrow> row list" where
  "stored_rows db t = (case db of None \<Rightarrow> [] | Some d \<Rightarrow> table_rows d t)"

section \<open>Loading a template\<close>

text \<open>
  \<^verbatim>\<open>loadTemplate\<close> (lines 978-1022), given the rows its query returned: every template
  exercise becomes an active exercise with \<^verbatim>\<open>default_sets\<close> sets, the first of them a
  warm-up, and the workout is started unless one is active already.
\<close>

record TemplateExercise =
  te_exercise :: Exercise
  default_sets :: nat
  default_reps :: int
  default_weight :: rat
  te_rest_time_seconds :: "int option"
  te_notes :: "string option"

definition loadedExercise :: "TemplateExercise \<Rightarrow> ActiveExercise" where
  "loadedExercise te =
     \<lparr>exercise = te_exercise te,
      sets = map (\<lambda>i. \<lparr>set_number = int i + 1, reps = default_reps te,
                        weight = default_weight te, completed = False, is_warmup = (i = 0),
                        rest_time_seconds = te_rest_time_seconds te, rpe = None,
                        set_notes = None\<rparr>)
               [0..<default_sets te],
      exercise_notes = te_notes te\<rparr>"

definition loadTemplate :: "int \<Rightarrow> TemplateExercise list \<Rightarrow> WorkoutScreen \<Rightarrow> WorkoutScreen" where
  "loadTemplate now templateExercises st =
     (let st' = st\<lparr>activeExercises := map loadedExercise templateExercises\<rparr>
      in if \<not> isWorkoutActive st then startWorkout now st' else st')"

text \<open>
  The elapsed-time display: the interval callback of lines 936-944 stores the whole
  seconds since the start while the workout is active.
\<close>

definition tickTimer :: "int \<Rightarrow> WorkoutScreen \<Rightarrow> WorkoutScreen" where
  "tickTimer now st =
     (case workoutStartTime st of
        Some start \<Rightarrow> if isWorkoutActive st then st\<lparr>timer := (now - start) div 1000\<rparr> else st
      | None \<Rightarrow> st)"

section \<open>The rest timer\<close>

text \<open>
  The state of the \<^verbatim>\<open>RestTimer\<close> component (\<^verbatim>\<open>src/unnamed/part_002\<close>, lines 22-118).
  \<^verbatim>\<open>useState(initialTime)\<close> reads the prop when the component is mounted.
\<close>

record RestTimer =
  timeRemaining :: int
  isRunning :: bool
  selectedTime :: int

definition mountRestTimer :: "int \<Rightarrow> RestTimer" where
  "mountRestTimer initialTime =
     \<lparr>timeRemaining = initialTime, isRunning = False, selectedTime = initialTime\<rparr>"

text \<open>The effect on \<^verbatim>\<open>visible\<close> turning true (lines 33-47).\<close>

definition showTimer :: "RestTimer \<Rightarrow> RestTimer" where
  "showTimer t = t\<lparr>timeRemaining := selectedTime t, isRunning := False\<rparr>"

definition handleStart :: "RestTimer \<Rightarrow> RestTimer" where
  "handleStart t =
     (let t' = (if timeRemaining t = 0 then t\<lparr>timeRemaining := selectedTime t\<rparr> else t)
      in t'\<lparr>isRunning := \<not> isRunning t\<rparr>)"

definition handleReset :: "RestTimer \<Rightarrow> RestTimer" where
  "handleReset t = t\<lparr>isRunning := False, timeRemaining := selectedTime t\<rparr>"

definition adjustTime :: "int \<Rightarrow> RestTimer \<Rightarrow> RestTimer" where
  "adjustTime delta t =
     (if \<not> isRunning t
      then let newTime = max 10 (selectedTime t + delta)
           in t\<lparr>selectedTime := newTime, timeRemaining := newTime\<rparr>
      else t)"

definition selectPresetTime :: "int \<Rightarrow> RestTimer \<Rightarrow> RestTimer" where
  "selectPresetTime time t =
     (if \<not> isRunning t then t\<lparr>selectedTime := time, timeRemaining := time\<rparr> else t)"

text \<open>
  One wake-up of the timer (lines 49-86). The effect keeps an interval only while
  \<^verbatim>\<open>isRunning && timeRemaining > 0\<close>, so without one nothing happens. With one, the
  updater either counts down by one or, from 1 (or less), stops the timer, calls
  \<^verbatim>\<open>onComplete\<close> and stores 0. The boolean says whether \<^verbatim>\<open>onComplete\<close> was called.
\<close>

definition tick :: "RestTimer \<Rightarrow> RestTimer \<times> bool" where
  "tick t =
     (if isRunning t \<and> timeRemaining t > 0
      then (if timeRemaining t \<le> 1
            then (t\<lparr>isRunning := False, timeRemaining := 0\<rparr>, True)
            else (t\<lparr>timeRemaining := timeRemaining t - 1\<rparr>, False))
      else (t, False))"

text \<open>\<open>n\<close> wake-ups in a row, with the number of times \<^verbatim>\<open>onComplete\<close> was called.\<close>

fun ticks :: "nat \<Rightarrow> RestTimer \<Rightarrow> RestTimer \<times> nat" where
  "ticks 0 t = (t, 0)"
| "ticks (Suc n) t =
     (case tick t of
        (t', fired) \<Rightarrow> (case ticks n t' of (t'', k) \<Rightarrow> (t'', (if fired then 1 else 0) + k)))"

section \<open>Sample data\<close>

text \<open>
  The state the screen is mounted with (the initial values of the \<^verbatim>\<open>useState\<close> cells),
  and the first entry of the seeded exercise library (DatabaseContext, the list of
  \<^verbatim>\<open>insertComprehensiveExercises\<close>), which gets row id 1.
\<close>

definition initial_screen :: WorkoutScreen where
  "initial_screen =
     \<lparr>isWorkoutActive = False, workoutStartTime = None, activeExercises = [],
      showExerciseModal = False, timer = 0, showRestTimer = False, currentRestTime = 60,
      workoutNotes = ''''\<rparr>"

definition bench_press :: Exercise where
  "bench_press =
     \<lparr>exercise_id = 1, name = ''Barbell Bench Press'', category = ''Chest'',
      primary_muscle = ''Chest'', equipment = ''Barbell'', difficulty_level = 3,
      instructions = ''Lie on bench, grip bar shoulder-width apart, lower to chest, press up explosively''\<rparr>"

text \<open>
  The insert of \<^verbatim>\<open>insertComprehensiveExercises\<close> (DatabaseContext) for one library entry
  and the insert of \<^verbatim>\<open>register\<close> (AuthContext) for a new user.
\<close>

definition exerciseSeedInsert :: "Exercise \<Rightarrow> string \<Rightarrow> insert_stmt" where
  "exerciseSeedInsert ex secondary_muscles =
     \<lparr>or_replace = False, into = ''exercises'',
      cols = [''name'', ''category'', ''primary_muscle'', ''secondary_muscles'', ''equipment'',
              ''difficulty_level'', ''instructions'', ''is_custom''],
      vals = [SText (name ex), SText (category ex), SText (primary_muscle ex),
              SText secondary_muscles, SText (equipment ex), SInt (difficulty_level ex),
              SText (instructions ex), SBool False]\<rparr>"

definition registerInsert :: "string \<Rightarrow> string \<Rightarrow> string \<Rightarrow> insert_stmt" where
  "registerInsert trimmedName trimmedEmail password =
     \<lparr>or_replace = False, into = ''users'',
      cols = [''name'', ''email'', ''password_hash'', ''preferred_weight_unit'',
              ''theme_preference''],
      vals = [SText trimmedName, SText trimmedEmail, SText password, SText ''kg'',
              SText ''light'']\<rparr>"

text \<open>
  A database as the app has it once it runs: created by \<^verbatim>\<open>initDatabase\<close>, the bench
  press seeded as exercise 1, and one user registered, who gets id 1.
\<close>

definition run_all :: "database \<Rightarrow> insert_stmt list \<Rightarrow> database" where
  "run_all db stmts =
     fold (\<lambda>s d. case runAsync d s of Inl _ \<Rightarrow> d | Inr (d', _) \<Rightarrow> d') stmts db"

definition sample_db :: database where
  "sample_db =
     run_all initDatabase
       [exerciseSeedInsert bench_press ''Triceps,Shoulders'',
        registerInsert ''Sam'' ''sam@example.com'' ''password1'']"

definition sample_user :: User where
  "sample_user =
     \<lparr>user_id = 1, user_name = ''Sam'', email = ''sam@example.com'',
      preferred_weight_unit = ''kg'', theme_preference = ''light''\<rparr>"

text \<open>A workout started at time 0 to which the bench press was added: one exercise, one set.\<close>

definition one_set_session :: WorkoutScreen where
  "one_set_session = addExercise bench_press (startWorkout 0 initial_screen)"

text \<open>
  Sets as the screen's editing leaves them: a completed working set and a completed
  warm-up set with a given set number, weight and reps; the bench press with given sets;
  a started workout with given exercises.
\<close>

definition working_set :: "int \<Rightarrow> rat \<Rightarrow> int \<Rightarrow> WorkoutSet" where
  "working_set n w r =
     \<lparr>set_number = n, reps = r, weight = w, completed = True, is_warmup = False,
      rest_time_seconds = None, rpe = None, set_notes = None\<rparr>"

definition warmup_set :: "int \<Rightarrow> rat \<Rightarrow> int \<Rightarrow> WorkoutSet" where
  "warmup_set n w r = (working_set n w r)\<lparr>is_warmup := True\<rparr>"

definition bench_with :: "WorkoutSet list \<Rightarrow> ActiveExercise" where
  "bench_with ss = \<lparr>exercise = bench_press, sets = ss, exercise_notes = None\<rparr>"

definition session_of :: "ActiveExercise list \<Rightarrow> WorkoutScreen" where
  "session_of exs = (startWorkout 0 initial_screen)\<lparr>activeExercises := exs\<rparr>"

text \<open>
  A started workout with three exercises: one whose set was removed, one with a completed
  working set of 100 x 5, and again one without sets.
\<close>

definition three_exercise_session :: WorkoutScreen where
  "three_exercise_session =
     session_of [bench_with [], bench_with [working_set 1 100 5], bench_with []]"

text \<open>
  Two more started workouts on the bench press: one with a completed warm-up set of
  50 x 10 and a completed working set of 100 x 5, and one with a single completed working
  set of 100 x 3.
\<close>

definition warmup_session :: WorkoutScreen where
  "warmup_session = session_of [bench_with [warmup_set 1 50 10, working_set 2 100 5]]"


section \<open>Set renumbering\<close>

lemma length_renumber: "length (renumber xs) = length xs"
  by (simp add: renumber_def)

lemma set_number_renumber: "map set_number (renumber xs) = map (\<lambda>index. int index + 1) [0..<length xs]"
proof -
  have "map set_number (renumber xs) =
          map ((\<lambda>index. int index + 1) \<circ> fst) (zip [0..<length xs] xs)"
    by (simp add: renumber_def case_prod_beta comp_def)
  also have "\<dots> = map (\<lambda>index. int index + 1) (map fst (zip [0..<length xs] xs))"
    by (simp only: map_map)
  also have "map fst (zip [0..<length xs] xs) = [0..<length xs]"
    by simp
  finally show ?thesis .
qed

lemma dense_renumber: "dense (renumber xs)"
  by (simp add: dense_def set_number_renumber length_renumber)

lemma removeSet_sets:
  assumes "removeSet exerciseIndex setIndex st = Inr st'"
  shows "exerciseIndex < length (activeExercises st) \<and>
         sets (activeExercises st' ! exerciseIndex) =
           renumber (filter_index setIndex (sets (activeExercises st ! exerciseIndex)))"
  using assms by (auto simp: removeSet_def Let_def split: if_splits)

lemma apply_set_ops_append:
  "apply_set_ops i (ops @ [op]) st =
     (case apply_set_ops i ops st of Inl e \<Rightarrow> Inl e | Inr st' \<Rightarrow> apply_set_op i op st')"
  by (induction ops arbitrary: st) (auto split: sum.splits)

lemma renumber_keeps_sets:
  "map (\<lambda>s. s\<lparr>set_number := 0\<rparr>) (renumber xs) = map (\<lambda>s. s\<lparr>set_number := 0\<rparr>) xs"
proof -
  have "map (\<lambda>s. s\<lparr>set_number := 0\<rparr>) (renumber xs) =
          map ((\<lambda>s. s\<lparr>set_number := 0\<rparr>) \<circ> snd) (zip [0..<length xs] xs)"
    by (simp add: renumber_def case_prod_beta comp_def)
  also have "\<dots> = map (\<lambda>s. s\<lparr>set_number := 0\<rparr>) (map snd (zip [0..<length xs] xs))"
    by (simp only: map_map)
  also have "map snd (zip [0..<length xs] xs) = xs"
    by simp
  finally show ?thesis .
qed

lemma filter_index_from:
  "map snd (filter (\<lambda>(k, _). k \<noteq> i) (zip [n..<n + length xs] xs)) =
     (if i < n then xs else take (i - n) xs @ drop (Suc (i - n)) xs)"
proof (induction xs arbitrary: n)
  case Nil
  then show ?case by simp
next
  case (Cons x xs)
  have "[n..<n + length (x # xs)] = n # [Suc n..<n + length (x # xs)]"
    by (rule upt_conv_Cons) simp
  then have upt: "[n..<n + length (x # xs)] = n # [Suc n..<Suc n + length xs]"
    by simp
  show ?case
  proof (cases "i < n")
    case True
    with Cons.IH [of "Suc n"] upt show ?thesis by simp
  next
    case False
    show ?thesis
    proof (cases "i = n")
      case True
      with Cons.IH [of "Suc n"] upt show ?thesis by simp
    next
      case neq: False
      with False have gt: "n < i" by simp
      then have "i - n = Suc (i - Suc n)" by simp
      with Cons.IH [of "Suc n"] upt gt neq show ?thesis by simp
    qed
  qed
qed

lemma filter_index_take_drop: "filter_index i xs = take i xs @ drop (Suc i) xs"
  using filter_index_from [of i 0 xs] by (simp add: filter_index_def)

text \<open>
  C5. Whatever add-set and remove-set requests were applied to an exercise before, right
  after a remove-set request the sets that remain in that exercise are numbered by their
  1-based position: the k-th remaining set has set number k. The remaining sets are, but
  for their numbers, the sets from before the request without the one at the removed
  index, in their order.
\<close>

theorem removeSet_renumbers_dense:
  assumes "apply_set_ops exerciseIndex (ops @ [RemoveSet setIndex]) st = Inr st'"
  shows "dense (sets (activeExercises st' ! exerciseIndex)) \<and>
         (\<exists>st1. apply_set_ops exerciseIndex ops st = Inr st1 \<and>
            map (\<lambda>s. s\<lparr>set_number := 0\<rparr>) (sets (activeExercises st' ! exerciseIndex)) =
            map (\<lambda>s. s\<lparr>set_number := 0\<rparr>)
              (take setIndex (sets (activeExercises st1 ! exerciseIndex)) @
               drop (Suc setIndex) (sets (activeExercises st1 ! exerciseIndex))))"
proof -
  from assms obtain st1 where
    before: "apply_set_ops exerciseIndex ops st = Inr st1"
    and removal: "removeSet exerciseIndex setIndex st1 = Inr st'"
    by (auto simp: apply_set_ops_append split: sum.splits)
  from removeSet_sets [OF removal]
  have sets: "sets (activeExercises st' ! exerciseIndex) =
      renumber (filter_index setIndex (sets (activeExercises st1 ! exerciseIndex)))"
    by simp
  then have "dense (sets (activeExercises st' ! exerciseIndex))"
    by (simp add: dense_renumber)
  moreover from sets have
    "map (\<lambda>s. s\<lparr>set_number := 0\<rparr>) (sets (activeExercises st' ! exerciseIndex)) =
     map (\<lambda>s. s\<lparr>set_number := 0\<rparr>)
       (take setIndex (sets (activeExercises st1 ! exerciseIndex)) @
        drop (Suc setIndex) (sets (activeExercises st1 ! exerciseIndex)))"
    by (simp only: renumber_keeps_sets filter_index_take_drop)
  ultimately show ?thesis using before by blast
qed

theorem removeSet_renumbers_dense_witness:
  "\<exists>st'. apply_set_ops 0 ([AddSet, AddSet, RemoveSet 0, AddSet] @ [RemoveSet 1])
             (addExercise bench_press (startWorkout 0 initial_screen)) = Inr st'
         \<and> map set_number (sets (activeExercises st' ! 0)) = [1, 2]
         \<and> dense (sets (activeExercises st' ! 0))"
proof -
  obtain st' where run:
    "apply_set_ops 0 ([AddSet, AddSet, RemoveSet 0, AddSet] @ [RemoveSet 1])
       (addExercise bench_press (startWorkout 0 initial_screen)) = Inr st'"
    and numbers: "map set_number (sets (activeExercises st' ! 0)) = [1, 2]"
    by (simp add: addExercise_def startWorkout_def initial_screen_def addSet_def removeSet_def
        renumber_def filter_index_def Let_def upt_conv_Cons)
  have "dense (sets (activeExercises st' ! 0))"
    by (rule conjunct1 [OF removeSet_renumbers_dense [OF run]])
  with run numbers show ?thesis
    by - (rule exI [where x = st'], intro conjI, assumption+)
qed

section \<open>Adding a set to an exercise without sets\<close>

text \<open>
  C10. \<^verbatim>\<open>addSet\<close> needs the exercise to hold at least one set. \<^verbatim>\<open>removeSet\<close> on an
  exercise with a single set (what \<^verbatim>\<open>addExercise\<close> creates) leaves it with no set at
  all; \<^verbatim>\<open>addSet\<close> on an exercise with no set throws a TypeError (it reads
  \<^verbatim>\<open>set_number\<close> of the undefined last set) instead of appending, and appends exactly when
  there is a last set to copy from.
\<close>

theorem addSet_needs_a_last_set:
  assumes "exerciseIndex < length (activeExercises st)"
  shows "(length (sets (activeExercises st ! exerciseIndex)) = 1 \<longrightarrow>
            (\<exists>st'. removeSet exerciseIndex 0 st = Inr st' \<and>
                   sets (activeExercises st' ! exerciseIndex) = []))
       \<and> (sets (activeExercises st ! exerciseIndex) = [] \<longrightarrow>
            addSet exerciseIndex st = Inl (TypeError ''lastSet''))
       \<and> (sets (activeExercises st ! exerciseIndex) \<noteq> [] \<longrightarrow>
            (\<exists>st'. addSet exerciseIndex st = Inr st'))"
proof (intro conjI impI)
  assume one: "length (sets (activeExercises st ! exerciseIndex)) = 1"
  then obtain s where "sets (activeExercises st ! exerciseIndex) = [s]"
    by (cases "sets (activeExercises st ! exerciseIndex)") auto
  with assms show "\<exists>st'. removeSet exerciseIndex 0 st = Inr st' \<and>
      sets (activeExercises st' ! exerciseIndex) = []"
    by (simp add: removeSet_def Let_def filter_index_def renumber_def)
next
  assume "sets (activeExercises st ! exerciseIndex) = []"
  with assms show "addSet exerciseIndex st = Inl (TypeError ''lastSet'')"
    by (simp add: addSet_def Let_def)
next
  assume "sets (activeExercises st ! exerciseIndex) \<noteq> []"
  then have "rev (sets (activeExercises st ! exerciseIndex)) \<noteq> []" by simp
  then obtain l ls where "rev (sets (activeExercises st ! exerciseIndex)) = l # ls"
    by (cases "rev (sets (activeExercises st ! exerciseIndex))") auto
  with assms show "\<exists>st'. addSet exerciseIndex st = Inr st'"
    by (simp add: addSet_def Let_def)
qed

theorem addSet_needs_a_last_set_witness:
  "(\<exists>st'. removeSet 0 0 one_set_session = Inr st'
         \<and> sets (activeExercises st' ! 0) = []
         \<and> addSet 0 st' = Inl (TypeError ''lastSet'')) \<and>
   (\<exists>st'. addSet 0 one_set_session = Inr st')"
proof -
  have len: "0 < length (activeExercises one_set_session)"
    and one: "length (sets (activeExercises one_set_session ! 0)) = 1"
    and some: "sets (activeExercises one_set_session ! 0) \<noteq> []"
    by (simp_all add: one_set_session_def addExercise_def startWorkout_def initial_screen_def)
  from addSet_needs_a_last_set [OF len] one obtain st' where
    rm: "removeSet 0 0 one_set_session = Inr st'" and empty: "sets (activeExercises st' ! 0) = []"
    by blast
  from rm have "0 < length (activeExercises st')"
    by (auto simp: removeSet_def Let_def split: if_splits)
  from addSet_needs_a_last_set [OF this] empty
  have "addSet 0 st' = Inl (TypeError ''lastSet'')" by blast
  with rm empty have first: "\<exists>st'. removeSet 0 0 one_set_session = Inr st'
      \<and> sets (activeExercises st' ! 0) = [] \<and> addSet 0 st' = Inl (TypeError ''lastSet'')"
    by blast
  from addSet_needs_a_last_set [OF len] some
  have "\<exists>st'. addSet 0 one_set_session = Inr st'" by blast
  with first show ?thesis by blast
qed

section \<open>What one insert does to the database\<close>

lemma runAsync_Inr:
  assumes "runAsync db s = Inr (db', k)"
  shows "\<exists>tb. db (into s) = Some tb \<and> k = new_rowid tb s \<and>
           db' = db(into s \<mapsto>
                   tb\<lparr>rows := (if or_replace s
                                then filter (\<lambda>r'. \<not> conflicts tb (new_row tb s) r') (rows tb)
                                else rows tb) @ [new_row tb s],
                      last_id := max (last_id tb) (new_rowid tb s)\<rparr>) \<and>
           set (cols s) \<subseteq> set (column_names tb)"
  using assms
  by (auto simp: runAsync_def Let_def find_None_iff split: option.splits if_splits)

lemma runAsync_other_table:
  assumes "runAsync db s = Inr (db', k)" and "t \<noteq> into s"
  shows "db' t = db t"
  using runAsync_Inr [OF assms(1)] assms(2) by auto

lemma runAsync_plain_rows:
  assumes "runAsync db s = Inr (db', k)" and "\<not> or_replace s"
  shows "\<exists>r. table_rows db' (into s) = table_rows db (into s) @ [r] \<and> cell r ''id'' = SInt k"
  using runAsync_Inr [OF assms(1)] assms(2)
  by (auto simp: table_rows_def new_row_def cell_def)

lemma saveSets_other_table:
  "t \<noteq> ''workout_sets'' \<Longrightarrow> fst (saveSets db user weid ss) t = db t"
proof (induction ss arbitrary: db)
  case Nil
  then show ?case by simp
next
  case (Cons s ss)
  show ?case
  proof (cases "runAsync db (workoutSetInsert user weid s)")
    case (Inl e)
    then show ?thesis by simp
  next
    case (Inr p)
    obtain db' k where p: "p = (db', k)" by (cases p)
    have "db' t = db t"
      using runAsync_other_table [of db "workoutSetInsert user weid s" db' k t] Inr p Cons.prems
      by (simp add: workoutSetInsert_def)
    with Cons.IH [OF Cons.prems, of db'] Inr p show ?thesis by simp
  qed
qed

lemma saveExercises_other_table:
  "t \<noteq> ''workout_sets'' \<Longrightarrow> t \<noteq> ''workout_exercises'' \<Longrightarrow>
   fst (saveExercises db user wid i exs) t = db t"
proof (induction exs arbitrary: db i)
  case Nil
  then show ?case by simp
next
  case (Cons ae rest)
  show ?case
  proof (cases "runAsync db (workoutExerciseInsert wid ae i)")
    case (Inl e)
    then show ?thesis by simp
  next
    case (Inr p)
    obtain db1 k where p: "p = (db1, k)" by (cases p)
    have db1: "db1 t = db t"
      using runAsync_other_table [of db "workoutExerciseInsert wid ae i" db1 k t] Inr p Cons.prems
      by (simp add: workoutExerciseInsert_def)
    obtain db2 r where s: "saveSets db1 user k (sets ae) = (db2, r)"
      by (cases "saveSets db1 user k (sets ae)")
    have db2: "db2 t = db1 t"
      using saveSets_other_table [OF Cons.prems(1), of db1 user k "sets ae"] s by simp
    show ?thesis
    proof (cases r)
      case (Inl e)
      with Inr p s db1 db2 show ?thesis by simp
    next
      case (Inr u)
      with \<open>runAsync db (workoutExerciseInsert wid ae i) = Inr p\<close> p s db1 db2
        Cons.IH [OF Cons.prems, of db2 "i + 1"]
      show ?thesis by simp
    qed
  qed
qed

text \<open>The sample workout on the sample database: the header insert returns workout id 1,
  and the write ends with the error of the first set insert.\<close>

lemma header_sample:
  "map_sum id snd (runAsync sample_db (workoutInsert sample_user 0 60000 one_set_session)) = Inr 1"
  by code_simp

lemma save_sample:
  "snd (saveWorkout sample_db sample_user 0 60000 one_set_session) =
     Inl (NoSuchColumn ''workout_sets'' ''workout_exercise_id'')"
  by code_simp

lemma runAsync_plain_grows:
  assumes "runAsync db s = Inr (db', k)" and "\<not> or_replace s"
  shows "\<exists>added. table_rows db' t = table_rows db t @ added"
  using runAsync_Inr [OF assms(1)] assms(2)
  by (cases "t = into s") (auto simp: table_rows_def)

lemma saveSets_grows:
  "\<exists>added. table_rows (fst (saveSets db user weid ss)) t = table_rows db t @ added"
proof (induction ss arbitrary: db)
  case Nil
  then show ?case by simp
next
  case (Cons s ss)
  show ?case
  proof (cases "runAsync db (workoutSetInsert user weid s)")
    case (Inl e)
    then show ?thesis by simp
  next
    case (Inr p)
    obtain db' k where p: "p = (db', k)" by (cases p)
    from runAsync_plain_grows [of db "workoutSetInsert user weid s" db' k t] Inr p
    obtain a where a: "table_rows db' t = table_rows db t @ a"
      by (auto simp: workoutSetInsert_def)
    from Cons.IH [of db'] obtain b where
      "table_rows (fst (saveSets db' user weid ss)) t = table_rows db' t @ b" by blast
    with a Inr p show ?thesis by simp
  qed
qed

lemma saveExercises_grows:
  "\<exists>added. table_rows (fst (saveExercises db user wid i exs)) t = table_rows db t @ added"
proof (induction exs arbitrary: db i)
  case Nil
  then show ?case by simp
next
  case (Cons ae rest)
  show ?case
  proof (cases "runAsync db (workoutExerciseInsert wid ae i)")
    case (Inl e)
    then show ?thesis by simp
  next
    case (Inr p)
    obtain db1 k where p: "p = (db1, k)" by (cases p)
    from runAsync_plain_grows [of db "workoutExerciseInsert wid ae i" db1 k t] Inr p
    obtain a where a: "table_rows db1 t = table_rows db t @ a"
      by (auto simp: workoutExerciseInsert_def)
    obtain db2 r where s: "saveSets db1 user k (sets ae) = (db2, r)"
      by (cases "saveSets db1 user k (sets ae)")
    from saveSets_grows [of db1 user k "sets ae" t] s
    obtain b where b: "table_rows db2 t = table_rows db1 t @ b" by auto
    show ?thesis
    proof (cases r)
      case (Inl e)
      with Inr p s a b show ?thesis by simp
    next
      case (Inr u)
      from Cons.IH [of db2 "i + 1"] obtain c where
        "table_rows (fst (saveExercises db2 user wid (i + 1) rest)) t = table_rows db2 t @ c"
        by blast
      with \<open>runAsync db (workoutExerciseInsert wid ae i) = Inr p\<close> p s a b Inr
      show ?thesis by simp
    qed
  qed
qed

lemma header_unknown_user:
  "map_sum id snd
     (runAsync sample_db (workoutInsert (sample_user\<lparr>user_id := 7\<rparr>) 0 60000 one_set_session)) =
   Inl ForeignKeyFailed"
  by code_simp

text \<open>
  The row a successful insert writes, cell by cell; and the tables the statements of
  \<^verbatim>\<open>endWorkout\<close> and of \<^verbatim>\<open>checkPersonalRecords\<close> leave alone.
\<close>

lemma map_of_new_cells:
  assumes "n \<in> set (map cname cs)" and "v \<noteq> SNull"
    and "map_of (zip (cols s) (vals s)) n = Some v"
  shows "map_of (map (\<lambda>c. (cname c, value_for s c)) cs) n = Some v"
  using assms by (induction cs) (auto simp: value_for_def)

lemma cell_new_row:
  assumes "n \<in> set (column_names tb)" and "n \<noteq> ''id''" and "v \<noteq> SNull"
    and "map_of (zip (cols s) (vals s)) n = Some v"
  shows "cell (new_row tb s) n = v"
  using assms map_of_new_cells [of n "columns tb" v s]
  by (simp add: cell_def new_row_def column_names_def)

lemma runAsync_last_row:
  assumes "runAsync db s = Inr (db', k)"
  shows "\<exists>tb. db (into s) = Some tb \<and> k = new_rowid tb s \<and>
           table_rows db' (into s) \<noteq> [] \<and>
           last (table_rows db' (into s)) = new_row tb s \<and>
           set (cols s) \<subseteq> set (column_names tb)"
  using runAsync_Inr [OF assms] by (auto simp: table_rows_def)

lemma check1RM_other_table:
  "t \<noteq> ''personal_records'' \<Longrightarrow> fst (check1RM db user wid ae) t = db t"
  by (auto simp: check1RM_def oneRMInsert_def split: option.splits sum.splits prod.splits
      dest!: runAsync_other_table [where t = t])

lemma checkVolume_other_table:
  "t \<noteq> ''personal_records'' \<Longrightarrow> fst (checkVolume db user wid ae) t = db t"
  by (auto simp: checkVolume_def volumeInsert_def split: option.splits sum.splits prod.splits
      dest!: runAsync_other_table [where t = t])

lemma checkRecordsLoop_other_table:
  "t \<noteq> ''personal_records'' \<Longrightarrow> fst (checkRecordsLoop db user wid exs) t = db t"
proof (induction exs arbitrary: db)
  case Nil
  then show ?case by simp
next
  case (Cons ae rest)
  obtain db1 shown e1 where a: "check1RM db user wid ae = (db1, shown, e1)"
    by (cases "check1RM db user wid ae")
  obtain db2 e2 where b: "checkVolume db1 user wid ae = (db2, e2)"
    by (cases "checkVolume db1 user wid ae")
  have 1: "db1 t = db t"
    using check1RM_other_table [OF Cons.prems, of db user wid ae] a by simp
  have 2: "db2 t = db1 t"
    using checkVolume_other_table [OF Cons.prems, of db1 user wid ae] b by simp
  from Cons.IH [OF Cons.prems, of db] Cons.IH [OF Cons.prems, of db2] a b 1 2
  show ?case by (auto split: option.splits prod.splits)
qed

lemma checkPersonalRecords_other_table:
  "t \<noteq> ''personal_records'' \<Longrightarrow> fst (checkPersonalRecords db user wid exs) t = db t"
  using checkRecordsLoop_other_table [of t db user wid exs]
  by (auto simp: checkPersonalRecords_def split: prod.splits)

lemma endWorkout_other_rows:
  assumes "activeExercises st \<noteq> []" and "workoutStartTime st = Some start"
    and "t \<noteq> ''personal_records''"
  shows "stored_rows (fst (endWorkout (Some u) (Some db) endTime st)) t =
           table_rows (fst (saveWorkout db u start endTime st)) t"
proof -
  obtain d' r where s: "saveWorkout db u start endTime st = (d', r)"
    by (cases "saveWorkout db u start endTime st")
  show ?thesis
  proof (cases r)
    case (Inl e)
    with s assms show ?thesis by (simp add: endWorkout_def stored_rows_def)
  next
    case (Inr wid)
    obtain d'' shown where c: "checkPersonalRecords d' u wid (activeExercises st) = (d'', shown)"
      by (cases "checkPersonalRecords d' u wid (activeExercises st)")
    have "d'' t = d' t"
      using checkPersonalRecords_other_table [OF assms(3), of d' u wid "activeExercises st"] c
      by simp
    with s Inr c assms show ?thesis
      by (simp add: endWorkout_def stored_rows_def table_rows_def)
  qed
qed

lemma runAsync_plain_new_row:
  assumes "runAsync db s = Inr (db', k)" and "\<not> or_replace s"
  shows "\<exists>tb. db (into s) = Some tb \<and> k = new_rowid tb s \<and>
           table_rows db' (into s) = table_rows db (into s) @ [new_row tb s] \<and>
           set (cols s) \<subseteq> set (column_names tb)"
  using runAsync_Inr [OF assms(1)] assms(2) by (auto simp: table_rows_def)

lemma cell_id_new_row: "cell (new_row tb s) ''id'' = SInt (new_rowid tb s)"
  by (simp add: cell_def new_row_def)


lemma saveWorkout_header_rows:
  assumes "runAsync db (workoutInsert user start endTime st) = Inr (db1, workoutId)"
  shows "table_rows (fst (saveWorkout db user start endTime st)) ''workouts'' =
           table_rows db1 ''workouts''"
proof -
  have "fst (saveExercises db1 user workoutId 0 (activeExercises st)) ''workouts'' = db1 ''workouts''"
    by (rule saveExercises_other_table) simp_all
  moreover have "fst (saveWorkout db user start endTime st) =
      fst (saveExercises db1 user workoutId 0 (activeExercises st))"
    using assms by (simp add: saveWorkout_def split: prod.splits sum.splits)
  ultimately show ?thesis by (simp add: table_rows_def)
qed

section \<open>The write is not atomic\<close>

text \<open>
  The nested loops of \<^verbatim>\<open>endWorkout\<close> run the statements of the workout write one after
  the other and stop at the first that fails.
\<close>

lemma run_setsScript:
  "run_script (setsScript user weid ss next) db =
     (case saveSets db user weid ss of
        (db', Inl e) \<Rightarrow> (db', Some e)
      | (db', Inr _) \<Rightarrow> run_script next db')"
proof (induction ss arbitrary: db)
  case Nil
  then show ?case by simp
next
  case (Cons s ss)
  show ?case
  proof (cases "runAsync db (workoutSetInsert user weid s)")
    case (Inl e)
    then show ?thesis by simp
  next
    case (Inr p)
    obtain db' k where p: "p = (db', k)" by (cases p)
    with Inr Cons.IH [of db'] show ?thesis by simp
  qed
qed

lemma run_exercisesScript:
  "run_script (exercisesScript user wid i exs) db =
     (case saveExercises db user wid i exs of
        (db', Inl e) \<Rightarrow> (db', Some e)
      | (db', Inr _) \<Rightarrow> (db', None))"
proof (induction exs arbitrary: db i)
  case Nil
  then show ?case by simp
next
  case (Cons ae rest)
  show ?case
  proof (cases "runAsync db (workoutExerciseInsert wid ae i)")
    case (Inl e)
    then show ?thesis by simp
  next
    case (Inr p)
    obtain db1 k where p: "p = (db1, k)" by (cases p)
    obtain db2 r where s: "saveSets db1 user k (sets ae) = (db2, r)"
      by (cases "saveSets db1 user k (sets ae)")
    show ?thesis
    proof (cases r)
      case (Inl e)
      with \<open>runAsync db (workoutExerciseInsert wid ae i) = Inr p\<close> p s
      show ?thesis by (simp add: run_setsScript)
    next
      case (Inr u)
      with \<open>runAsync db (workoutExerciseInsert wid ae i) = Inr p\<close> p s Cons.IH [of "i + 1" db2]
      show ?thesis by (simp add: run_setsScript)
    qed
  qed
qed

lemma run_workoutScript:
  "run_script (workoutScript user start endTime st) db =
     (fst (saveWorkout db user start endTime st),
      case snd (saveWorkout db user start endTime st) of Inl e \<Rightarrow> Some e | Inr _ \<Rightarrow> None)"
proof (cases "runAsync db (workoutInsert user start endTime st)")
  case (Inl e)
  then show ?thesis by (simp add: workoutScript_def saveWorkout_def)
next
  case (Inr p)
  obtain db1 k where p: "p = (db1, k)" by (cases p)
  obtain db2 r where s: "saveExercises db1 user k 0 (activeExercises st) = (db2, r)"
    by (cases "saveExercises db1 user k 0 (activeExercises st)")
  with Inr p show ?thesis
    by (cases r) (simp_all add: workoutScript_def saveWorkout_def run_exercisesScript)
qed

lemma header_three:
  "map_sum id snd (runAsync sample_db (workoutInsert sample_user 0 60000 three_exercise_session)) = Inr 1"
  by code_simp

lemma save_three:
  "snd (saveWorkout sample_db sample_user 0 60000 three_exercise_session) =
     Inl (NoSuchColumn ''workout_sets'' ''workout_exercise_id'')"
  by code_simp

lemma rows_three:
  "table_rows (fst (saveWorkout sample_db sample_user 0 60000 three_exercise_session)) ''workout_exercises'' =
     [[(''id'', SInt 1), (''workout_id'', SInt 1), (''exercise_id'', SInt 1),
       (''order_index'', SInt 0), (''notes'', SText '''')],
      [(''id'', SInt 2), (''workout_id'', SInt 1), (''exercise_id'', SInt 1),
       (''order_index'', SInt 1), (''notes'', SText '''')]]"
  "table_rows (fst (saveWorkout sample_db sample_user 0 60000 three_exercise_session)) ''workout_sets'' = []"
  by code_simp+

text \<open>
  C1, as the code has it. The claim (an insert that fails leaves no row of the session
  behind) does not hold: the inserts are committed one by one and nothing rolls them back.
  What holds instead: the write is the run of its statements in their order (the header;
  then, for every exercise, its row and the rows of its sets), every statement committed on
  its own, and the run stops at the first statement that fails. The database is then the
  one the statements before the failing one left, so the header, exercise and set rows
  they wrote remain, and no statement after the failing one is run; \<^verbatim>\<open>endWorkout\<close> then
  returns that database with the session as it was and shows the save error. In
  particular: when the header insert fails, nothing is written; once it has succeeded, the
  header row with the session's workout id is in the \<^verbatim>\<open>workouts\<close> table after the write,
  whether the later inserts succeeded or one of them failed; and the write never takes a
  row away: every table holds the rows it held before, followed by the rows the write
  added.
\<close>

theorem workout_write_commits_statement_by_statement:
  "run_script (workoutScript user start endTime st) db =
     (fst (saveWorkout db user start endTime st),
      case snd (saveWorkout db user start endTime st) of Inl e \<Rightarrow> Some e | Inr _ \<Rightarrow> None) \<and>
   (activeExercises st \<noteq> [] \<and> workoutStartTime st = Some start \<longrightarrow>
      (\<forall>db' e. run_script (workoutScript user start endTime st) db = (db', Some e) \<longrightarrow>
         endWorkout (Some user) (Some db) endTime st =
           (Some db', st,
            [ShowError ''Save Error'' (Literal ''Failed to save workout. Please try again.'')]))) \<and>
   (\<forall>e. runAsync db (workoutInsert user start endTime st) = Inl e \<longrightarrow>
        saveWorkout db user start endTime st = (db, Inl e)) \<and>
   (\<forall>db1 workoutId. runAsync db (workoutInsert user start endTime st) = Inr (db1, workoutId) \<longrightarrow>
        (\<exists>r. table_rows (fst (saveWorkout db user start endTime st)) ''workouts'' =
               table_rows db ''workouts'' @ [r] \<and>
             cell r ''id'' = SInt workoutId)) \<and>
   (\<forall>t. \<exists>added. table_rows (fst (saveWorkout db user start endTime st)) t =
                  table_rows db t @ added)"
proof (intro conjI allI impI)
  show "run_script (workoutScript user start endTime st) db =
     (fst (saveWorkout db user start endTime st),
      case snd (saveWorkout db user start endTime st) of Inl e \<Rightarrow> Some e | Inr _ \<Rightarrow> None)"
    by (rule run_workoutScript)
next
  fix db' e
  assume st: "activeExercises st \<noteq> [] \<and> workoutStartTime st = Some start"
    and run: "run_script (workoutScript user start endTime st) db = (db', Some e)"
  from run have "saveWorkout db user start endTime st = (db', Inl e)"
    by (cases "saveWorkout db user start endTime st")
       (auto simp: run_workoutScript split: sum.splits)
  with st show "endWorkout (Some user) (Some db) endTime st =
      (Some db', st,
       [ShowError ''Save Error'' (Literal ''Failed to save workout. Please try again.'')])"
    by (simp add: endWorkout_def)
next
  fix e
  assume "runAsync db (workoutInsert user start endTime st) = Inl e"
  then show "saveWorkout db user start endTime st = (db, Inl e)"
    by (simp add: saveWorkout_def)
next
  fix db1 workoutId
  assume ok: "runAsync db (workoutInsert user start endTime st) = Inr (db1, workoutId)"
  have plain: "\<not> or_replace (workoutInsert user start endTime st)"
    and into: "into (workoutInsert user start endTime st) = ''workouts''"
    by (simp_all add: workoutInsert_def)
  from runAsync_plain_rows [OF ok plain] into obtain r where
    r: "table_rows db1 ''workouts'' = table_rows db ''workouts'' @ [r]" "cell r ''id'' = SInt workoutId"
    by auto
  have "fst (saveExercises db1 user workoutId 0 (activeExercises st)) ''workouts'' = db1 ''workouts''"
    by (rule saveExercises_other_table) simp_all
  moreover have "fst (saveWorkout db user start endTime st) =
      fst (saveExercises db1 user workoutId 0 (activeExercises st))"
    using ok by (simp add: saveWorkout_def split: prod.splits sum.splits)
  ultimately have "table_rows (fst (saveWorkout db user start endTime st)) ''workouts'' =
      table_rows db1 ''workouts''"
    by (simp add: table_rows_def)
  with r show "\<exists>r. table_rows (fst (saveWorkout db user start endTime st)) ''workouts'' =
      table_rows db ''workouts'' @ [r] \<and> cell r ''id'' = SInt workoutId"
    by simp
next
  fix t
  show "\<exists>added. table_rows (fst (saveWorkout db user start endTime st)) t = table_rows db t @ added"
  proof (cases "runAsync db (workoutInsert user start endTime st)")
    case (Inl e)
    then show ?thesis by (simp add: saveWorkout_def)
  next
    case (Inr p)
    obtain db1 k where p: "p = (db1, k)" by (cases p)
    from runAsync_plain_grows [of db "workoutInsert user start endTime st" db1 k t] Inr p
    obtain a where a: "table_rows db1 t = table_rows db t @ a"
      by (auto simp: workoutInsert_def)
    from saveExercises_grows [of db1 user k 0 "activeExercises st" t]
    obtain b where
      "table_rows (fst (saveExercises db1 user k 0 (activeExercises st))) t = table_rows db1 t @ b"
      by blast
    moreover have "fst (saveWorkout db user start endTime st) =
        fst (saveExercises db1 user k 0 (activeExercises st))"
      using Inr p by (simp add: saveWorkout_def split: prod.splits sum.splits)
    ultimately show ?thesis using a by simp
  qed
qed

theorem workout_write_commits_statement_by_statement_witness:
  "snd (run_script (workoutScript sample_user 0 60000 three_exercise_session) sample_db) =
     Some (NoSuchColumn ''workout_sets'' ''workout_exercise_id'') \<and>
   endWorkout (Some sample_user) (Some sample_db) 60000 three_exercise_session =
     (Some (fst (run_script (workoutScript sample_user 0 60000 three_exercise_session) sample_db)),
      three_exercise_session,
      [ShowError ''Save Error'' (Literal ''Failed to save workout. Please try again.'')]) \<and>
   table_rows (fst (run_script (workoutScript sample_user 0 60000 three_exercise_session) sample_db))
       ''workout_exercises'' =
     [[(''id'', SInt 1), (''workout_id'', SInt 1), (''exercise_id'', SInt 1),
       (''order_index'', SInt 0), (''notes'', SText '''')],
      [(''id'', SInt 2), (''workout_id'', SInt 1), (''exercise_id'', SInt 1),
       (''order_index'', SInt 1), (''notes'', SText '''')]] \<and>
   table_rows (fst (run_script (workoutScript sample_user 0 60000 three_exercise_session) sample_db))
       ''workout_sets'' = [] \<and>
   (\<exists>r. table_rows (fst (saveWorkout sample_db sample_user 0 60000 three_exercise_session)) ''workouts'' =
          table_rows sample_db ''workouts'' @ [r] \<and> cell r ''id'' = SInt 1) \<and>
   saveWorkout sample_db (sample_user\<lparr>user_id := 7\<rparr>) 0 60000 one_set_session =
     (sample_db, Inl ForeignKeyFailed)"
proof -
  let ?st = three_exercise_session
  note main = workout_write_commits_statement_by_statement [of sample_user 0 60000 ?st sample_db]
  have st: "activeExercises ?st \<noteq> [] \<and> workoutStartTime ?st = Some 0"
    by (simp add: three_exercise_session_def session_of_def startWorkout_def initial_screen_def)
  from main save_three
  have run: "run_script (workoutScript sample_user 0 60000 ?st) sample_db =
      (fst (saveWorkout sample_db sample_user 0 60000 ?st),
       Some (NoSuchColumn ''workout_sets'' ''workout_exercise_id''))"
    by simp
  with main st
  have shown: "endWorkout (Some sample_user) (Some sample_db) 60000 ?st =
      (Some (fst (saveWorkout sample_db sample_user 0 60000 ?st)), ?st,
       [ShowError ''Save Error'' (Literal ''Failed to save workout. Please try again.'')])"
    by blast
  obtain db1 where ok:
    "runAsync sample_db (workoutInsert sample_user 0 60000 ?st) = Inr (db1, 1)"
    using header_three
    by (cases "runAsync sample_db (workoutInsert sample_user 0 60000 ?st)") auto
  with main
  have header: "\<exists>r. table_rows (fst (saveWorkout sample_db sample_user 0 60000 ?st)) ''workouts'' =
      table_rows sample_db ''workouts'' @ [r] \<and> cell r ''id'' = SInt 1"
    by blast
  have "runAsync sample_db
      (workoutInsert (sample_user\<lparr>user_id := 7\<rparr>) 0 60000 one_set_session) = Inl ForeignKeyFailed"
    using header_unknown_user
    by (cases "runAsync sample_db
          (workoutInsert (sample_user\<lparr>user_id := 7\<rparr>) 0 60000 one_set_session)") auto
  with workout_write_commits_statement_by_statement
    [of "sample_user\<lparr>user_id := 7\<rparr>" 0 60000 one_set_session sample_db]
  have failed: "saveWorkout sample_db (sample_user\<lparr>user_id := 7\<rparr>) 0 60000 one_set_session =
      (sample_db, Inl ForeignKeyFailed)"
    by blast
  from run shown header failed rows_three show ?thesis by simp
qed

text \<open>
  The claim fails on the sample workout: \<^verbatim>\<open>endWorkout\<close> reports the save error, and
  afterwards the store holds the header row of workout 1 and the exercise row that refers
  to it, and no set row.
\<close>

theorem endWorkout_partial_write_counterexample:
  "snd (snd (endWorkout (Some sample_user) (Some sample_db) 60000 one_set_session)) =
     [ShowError ''Save Error'' (Literal ''Failed to save workout. Please try again.'')] \<and>
   stored_rows (fst (endWorkout (Some sample_user) (Some sample_db) 60000 one_set_session)) ''workouts'' =
     [[(''id'', SInt 1), (''user_id'', SInt 1), (''template_id'', SNull), (''name'', SNull),
       (''start_time'', SDate 0), (''end_time'', SDate 60000), (''duration_seconds'', SInt 60),
       (''total_volume'', SNum 0), (''notes'', SText ''''),
       (''created_at'', SText ''CURRENT_TIMESTAMP'')]] \<and>
   stored_rows (fst (endWorkout (Some sample_user) (Some sample_db) 60000 one_set_session)) ''workout_exercises'' =
     [[(''id'', SInt 1), (''workout_id'', SInt 1), (''exercise_id'', SInt 1),
       (''order_index'', SInt 0), (''notes'', SText '''')]] \<and>
   stored_rows (fst (endWorkout (Some sample_user) (Some sample_db) 60000 one_set_session)) ''workout_sets'' = []"
  by code_simp

section \<open>Header volume and volume candidate\<close>

text \<open>
  The two nested loops of the header volume and the \<^verbatim>\<open>reduce\<close> of the volume candidate
  add up, from 0 and from left to right, the rounded products of the sets they count.
\<close>

lemma fold_completed_volume:
  "fold (\<lambda>s total. if completed s then plus64 total (v s) else total) ss acc =
     foldl plus64 acc (map v (filter completed ss))"
  by (induction ss arbitrary: acc) simp_all

lemma fold_exercises_volume:
  "fold (\<lambda>exercise total.
           fold (\<lambda>s total. if completed s then plus64 total (v s) else total)
             (sets exercise) total) exs acc =
     foldl plus64 acc (map v (filter completed (concat (map sets exs))))"
  by (induction exs arbitrary: acc) (simp_all add: fold_completed_volume)

lemma fold_volume:
  "fold (\<lambda>s sum. plus64 sum (v s)) ss acc = foldl plus64 acc (map v ss)"
  by (induction ss arbitrary: acc) simp_all

text \<open>
  Products and sums are those of the program's numbers: with a weight of 0.1 (the
  binary64 number next to it) and 3 reps the volume is 0.30000000000000004. On the workout
  with the warm-up set the header insert returns workout id 1, the volumes are 1000 and 500,
  and no volume record is stored before the evaluation, and 500 after it.
\<close>

lemma binary64_examples:
  "round64 (1 / 10) = 3602879701896397 / 36028797018963968"
  "times64 (round64 (1 / 10)) 3 = 1351079888211149 / 4503599627370496"
  "totalVolume [bench_with [working_set 1 (round64 (1 / 10)) 3]] =
     1351079888211149 / 4503599627370496"
  "times64 (round64 (3 / 10)) 1 = 5404319552844595 / 18014398509481984"
  "plus64 (times64 50 10) (times64 100 5) = 1000"
  by code_simp+

lemma header_warmup:
  "map_sum id snd (runAsync sample_db (workoutInsert sample_user 0 60000 warmup_session)) = Inr 1"
  by code_simp

lemma volumes_warmup:
  "totalVolume (activeExercises warmup_session) = 1000"
  "volumeCandidate (bench_with [warmup_set 1 50 10, working_set 2 100 5]) = 500"
  by code_simp+

lemma no_volume_record_yet:
  "existingPR (fst (saveWorkout sample_db sample_user 0 60000 warmup_session)) sample_user
     (bench_with [warmup_set 1 50 10, working_set 2 100 5]) ''volume'' = Inr None"
  by code_simp

lemma volume_record_written:
  "map_sum id snd
     (runAsync (fst (saveWorkout sample_db sample_user 0 60000 warmup_session))
        (volumeInsert sample_user (bench_with [warmup_set 1 50 10, working_set 2 100 5]) 1)) = Inr 1"
  by code_simp

lemma volume_record_kept:
  "existingPR
     (fst (checkVolume (fst (saveWorkout sample_db sample_user 0 60000 warmup_session))
        sample_user 1 (bench_with [warmup_set 1 50 10, working_set 2 100 5])))
     sample_user (bench_with [warmup_set 1 50 10, working_set 2 100 5]) ''volume'' =
   Inr (Some (SNum 500))"
  by code_simp

text \<open>
  C4. The total volume of a session is the left-to-right sum, from 0, of \<open>weight * reps\<close>
  over all its completed sets in exercise and set order, warm-ups included and incomplete
  sets left out; the volume candidate of an exercise is that sum over its sets that are
  completed and no warm-ups. For a started session with at least one exercise, once the
  header insert has succeeded the \<^verbatim>\<open>workouts\<close> table that \<^verbatim>\<open>endWorkout\<close> leaves holds
  the rows it held before followed by one new row, with the session's workout id and with
  the total volume in its \<^verbatim>\<open>total_volume\<close> cell (whether or not a later insert fails).
  The volume check compares the candidate with the stored value: when the candidate does
  not beat it nothing is written, and when it does and the insert succeeds, the row
  written last into \<^verbatim>\<open>personal_records\<close> has the candidate as its value.
\<close>

theorem header_volume_and_volume_candidate:
  "totalVolume exs =
     foldl plus64 0
       (map (\<lambda>s. times64 (weight s) (of_int (reps s)))
          (filter completed (concat (map sets exs)))) \<and>
   volumeCandidate activeExercise =
     foldl plus64 0
       (map (\<lambda>s. times64 (weight s) (of_int (reps s)))
          (filter (\<lambda>s. completed s \<and> \<not> is_warmup s) (sets activeExercise))) \<and>
   (activeExercises st \<noteq> [] \<and> workoutStartTime st = Some start \<longrightarrow>
      (\<forall>db1 workoutId.
         runAsync db (workoutInsert user start endTime st) = Inr (db1, workoutId) \<longrightarrow>
         (\<exists>r. stored_rows (fst (endWorkout (Some user) (Some db) endTime st)) ''workouts'' =
                table_rows db ''workouts'' @ [r] \<and>
              cell r ''id'' = SInt workoutId \<and>
              cell r ''total_volume'' = SNum (totalVolume (activeExercises st))))) \<and>
   (\<forall>existing. existingPR db user activeExercise ''volume'' = Inr existing \<longrightarrow>
      (\<not> beats (volumeCandidate activeExercise) existing \<longrightarrow>
         checkVolume db user workoutId activeExercise = (db, None)) \<and>
      (beats (volumeCandidate activeExercise) existing \<longrightarrow>
         (\<forall>db' k. runAsync db (volumeInsert user activeExercise workoutId) = Inr (db', k) \<longrightarrow>
            checkVolume db user workoutId activeExercise = (db', None) \<and>
            cell (last (table_rows db' ''personal_records'')) ''value'' =
              SNum (volumeCandidate activeExercise))))"
proof (intro conjI allI impI)
  show "totalVolume exs =
     foldl plus64 0
       (map (\<lambda>s. times64 (weight s) (of_int (reps s)))
          (filter completed (concat (map sets exs))))"
    unfolding totalVolume_def by (rule fold_exercises_volume)
  show "volumeCandidate activeExercise =
     foldl plus64 0
       (map (\<lambda>s. times64 (weight s) (of_int (reps s)))
          (filter (\<lambda>s. completed s \<and> \<not> is_warmup s) (sets activeExercise)))"
    unfolding volumeCandidate_def completedSets_def by (rule fold_volume)
next
  fix db1 workoutId
  assume st: "activeExercises st \<noteq> [] \<and> workoutStartTime st = Some start"
    and ok: "runAsync db (workoutInsert user start endTime st) = Inr (db1, workoutId)"
  let ?s = "workoutInsert user start endTime st"
  have plain: "\<not> or_replace ?s" and into: "into ?s = ''workouts''"
    by (simp_all add: workoutInsert_def)
  from runAsync_plain_new_row [OF ok plain] into obtain tb where
    tb: "workoutId = new_rowid tb ?s"
      "table_rows db1 ''workouts'' = table_rows db ''workouts'' @ [new_row tb ?s]"
      "set (cols ?s) \<subseteq> set (column_names tb)"
    by auto
  from tb(3) have "''total_volume'' \<in> set (column_names tb)"
    by (simp add: workoutInsert_def)
  then have vol: "cell (new_row tb ?s) ''total_volume'' = SNum (totalVolume (activeExercises st))"
    by (rule cell_new_row) (simp_all add: workoutInsert_def)
  have "stored_rows (fst (endWorkout (Some user) (Some db) endTime st)) ''workouts'' =
      table_rows (fst (saveWorkout db user start endTime st)) ''workouts''"
    using st by (intro endWorkout_other_rows) simp_all
  also have "\<dots> = table_rows db1 ''workouts''"
    by (rule saveWorkout_header_rows [OF ok])
  finally have "stored_rows (fst (endWorkout (Some user) (Some db) endTime st)) ''workouts'' =
      table_rows db ''workouts'' @ [new_row tb ?s]"
    using tb(2) by simp
  with vol tb(1) cell_id_new_row [of tb ?s]
  show "\<exists>r. stored_rows (fst (endWorkout (Some user) (Some db) endTime st)) ''workouts'' =
          table_rows db ''workouts'' @ [r] \<and>
        cell r ''id'' = SInt workoutId \<and>
        cell r ''total_volume'' = SNum (totalVolume (activeExercises st))"
    by simp
next
  fix existing
  assume "existingPR db user activeExercise ''volume'' = Inr existing"
    and "\<not> beats (volumeCandidate activeExercise) existing"
  then show "checkVolume db user workoutId activeExercise = (db, None)"
    by (simp add: checkVolume_def)
next
  fix existing db' k
  assume ex: "existingPR db user activeExercise ''volume'' = Inr existing"
    and b: "beats (volumeCandidate activeExercise) existing"
    and ok: "runAsync db (volumeInsert user activeExercise workoutId) = Inr (db', k)"
  then show "checkVolume db user workoutId activeExercise = (db', None)"
    by (simp add: checkVolume_def)
  let ?s = "volumeInsert user activeExercise workoutId"
  have into: "into ?s = ''personal_records''"
    by (simp add: volumeInsert_def)
  from runAsync_last_row [OF ok] into obtain tb where
    tb: "last (table_rows db' ''personal_records'') = new_row tb ?s"
      "set (cols ?s) \<subseteq> set (column_names tb)"
    by auto
  from tb(2) have "''value'' \<in> set (column_names tb)"
    by (simp add: volumeInsert_def)
  then have "cell (new_row tb ?s) ''value'' = SNum (volumeCandidate activeExercise)"
    by (rule cell_new_row) (simp_all add: volumeInsert_def)
  with tb(1) show "cell (last (table_rows db' ''personal_records'')) ''value'' =
      SNum (volumeCandidate activeExercise)"
    by simp
qed

theorem header_volume_and_volume_candidate_witness:
  "totalVolume (activeExercises warmup_session) = 1000 \<and>
   volumeCandidate (bench_with [warmup_set 1 50 10, working_set 2 100 5]) = 500 \<and>
   (\<exists>r. stored_rows (fst (endWorkout (Some sample_user) (Some sample_db) 60000 warmup_session))
           ''workouts'' = table_rows sample_db ''workouts'' @ [r] \<and>
        cell r ''id'' = SInt 1 \<and> cell r ''total_volume'' = SNum 1000) \<and>
   cell (last (table_rows
       (fst (checkVolume (fst (saveWorkout sample_db sample_user 0 60000 warmup_session))
          sample_user 1 (bench_with [warmup_set 1 50 10, working_set 2 100 5])))
       ''personal_records'')) ''value'' = SNum 500 \<and>
   checkVolume
       (fst (checkVolume (fst (saveWorkout sample_db sample_user 0 60000 warmup_session))
          sample_user 1 (bench_with [warmup_set 1 50 10, working_set 2 100 5])))
       sample_user 2 (bench_with [warmup_set 1 50 10, working_set 2 100 5]) =
     (fst (checkVolume (fst (saveWorkout sample_db sample_user 0 60000 warmup_session))
        sample_user 1 (bench_with [warmup_set 1 50 10, working_set 2 100 5])), None)"
proof -
  let ?ae = "bench_with [warmup_set 1 50 10, working_set 2 100 5]"
  let ?db = "fst (saveWorkout sample_db sample_user 0 60000 warmup_session)"
  let ?db2 = "fst (checkVolume ?db sample_user 1 ?ae)"
  have st: "activeExercises warmup_session \<noteq> [] \<and> workoutStartTime warmup_session = Some 0"
    by (simp add: warmup_session_def session_of_def startWorkout_def initial_screen_def)
  obtain db1 where ok:
    "runAsync sample_db (workoutInsert sample_user 0 60000 warmup_session) = Inr (db1, 1)"
    using header_warmup
    by (cases "runAsync sample_db (workoutInsert sample_user 0 60000 warmup_session)") auto
  from header_volume_and_volume_candidate
    [of "activeExercises warmup_session" ?ae warmup_session 0 sample_db sample_user 60000 1] st ok
  have header: "\<exists>r. stored_rows (fst (endWorkout (Some sample_user) (Some sample_db) 60000 warmup_session))
           ''workouts'' = table_rows sample_db ''workouts'' @ [r] \<and>
        cell r ''id'' = SInt 1 \<and> cell r ''total_volume'' = SNum 1000"
    by (simp add: volumes_warmup)
  obtain db' where written: "runAsync ?db (volumeInsert sample_user ?ae 1) = Inr (db', 1)"
    using volume_record_written
    by (cases "runAsync ?db (volumeInsert sample_user ?ae 1)") auto
  have beats: "beats (volumeCandidate ?ae) None"
    by (simp add: beats_def)
  from header_volume_and_volume_candidate
    [of "activeExercises warmup_session" ?ae warmup_session 0 ?db sample_user 60000 1]
    no_volume_record_yet beats written
  have stored: "cell (last (table_rows (fst (checkVolume ?db sample_user 1 ?ae)) ''personal_records''))
      ''value'' = SNum 500"
    by (simp add: volumes_warmup)
  have "\<not> beats (volumeCandidate ?ae) (Some (SNum 500))"
    by (simp add: volumes_warmup beats_def greater_than_def)
  with header_volume_and_volume_candidate
    [of "activeExercises warmup_session" ?ae warmup_session 0 ?db2 sample_user 60000 2]
    volume_record_kept
  have again: "checkVolume ?db2 sample_user 2 ?ae = (?db2, None)"
    by blast
  from header stored again volumes_warmup show ?thesis by simp
qed

section \<open>Set rows against the created schema\<close>

lemma workout_exercise_id_missing:
  "''workout_exercise_id'' \<notin> set (''id'' # map cname workout_sets_columns)"
  by (simp add: workout_sets_columns_def col_def not_null_def fk_def default_def between_def)

lemma set_insert_rejected:
  assumes "db ''workout_sets'' = Some tb" and "columns tb = workout_sets_columns"
  shows "runAsync db (workoutSetInsert user workoutExerciseId s) =
           Inl (NoSuchColumn ''workout_sets'' ''workout_exercise_id'')"
  using assms workout_exercise_id_missing
  by (simp add: runAsync_def workoutSetInsert_def column_names_def)

lemma saveExercises_rejected:
  assumes "db ''workout_sets'' = Some tb" and "columns tb = workout_sets_columns"
    and "\<exists>ae\<in>set exs. sets ae \<noteq> []"
  shows "\<exists>e. snd (saveExercises db user wid i exs) = Inl e"
  using assms
proof (induction exs arbitrary: db i)
  case Nil
  then show ?case by simp
next
  case (Cons ae rest)
  show ?case
  proof (cases "runAsync db (workoutExerciseInsert wid ae i)")
    case (Inl e)
    then show ?thesis by simp
  next
    case (Inr p)
    obtain db1 k where p: "p = (db1, k)" by (cases p)
    have db1: "db1 ''workout_sets'' = Some tb"
      using runAsync_other_table [of db "workoutExerciseInsert wid ae i" db1 k "''workout_sets''"]
        Inr p Cons.prems(1)
      by (simp add: workoutExerciseInsert_def)
    show ?thesis
    proof (cases "sets ae")
      case Nil
      with Cons.prems(3) have "\<exists>ae\<in>set rest. sets ae \<noteq> []" by simp
      from Cons.IH [where db = db1 and i = "i + 1", OF db1 Cons.prems(2) this] Inr p Nil
      show ?thesis by simp
    next
      case (Cons s ss)
      with set_insert_rejected [where db = db1 and tb = tb, OF db1 Cons.prems(2), of user k s] Inr p
      show ?thesis by simp
    qed
  qed
qed

lemma sample_schema:
  "map_option columns (sample_db ''workout_sets'') = Some workout_sets_columns"
  by code_simp

text \<open>
  C2, where the code breaks the claim. The \<^verbatim>\<open>workout_sets\<close> table that
  \<^verbatim>\<open>initDatabase\<close> creates has no column \<^verbatim>\<open>workout_exercise_id\<close> (it has
  \<^verbatim>\<open>workout_id\<close> and \<^verbatim>\<open>exercise_id\<close>). On every database whose \<^verbatim>\<open>workout_sets\<close>
  table has the created columns, the set insert of \<^verbatim>\<open>endWorkout\<close> is rejected with
  "no such column", so the write of any session that holds a set ends in an error.
\<close>

theorem workout_sets_schema_rejects_set_insert:
  assumes "db ''workout_sets'' = Some tb" and "columns tb = workout_sets_columns"
  shows "''workout_exercise_id'' \<notin> set (column_names tb) \<and>
         runAsync db (workoutSetInsert user workoutExerciseId s) =
           Inl (NoSuchColumn ''workout_sets'' ''workout_exercise_id'') \<and>
         ((\<exists>ae\<in>set (activeExercises st). sets ae \<noteq> []) \<longrightarrow>
            (\<exists>e. snd (saveWorkout db user start endTime st) = Inl e))"
proof (intro conjI impI)
  show "''workout_exercise_id'' \<notin> set (column_names tb)"
    using assms(2) workout_exercise_id_missing by (simp add: column_names_def)
  show "runAsync db (workoutSetInsert user workoutExerciseId s) =
      Inl (NoSuchColumn ''workout_sets'' ''workout_exercise_id'')"
    by (rule set_insert_rejected [where db = db and tb = tb, OF assms])
next
  assume sets: "\<exists>ae\<in>set (activeExercises st). sets ae \<noteq> []"
  show "\<exists>e. snd (saveWorkout db user start endTime st) = Inl e"
  proof (cases "runAsync db (workoutInsert user start endTime st)")
    case (Inl e)
    then show ?thesis by (simp add: saveWorkout_def)
  next
    case (Inr p)
    obtain db1 k where p: "p = (db1, k)" by (cases p)
    have "db1 ''workout_sets'' = Some tb"
      using runAsync_other_table [of db "workoutInsert user start endTime st" db1 k "''workout_sets''"]
        Inr p assms(1)
      by (simp add: workoutInsert_def)
    from saveExercises_rejected [where db = db1 and tb = tb, OF this assms(2) sets, of user k 0] Inr p
    show ?thesis by (auto simp: saveWorkout_def split: prod.splits sum.splits)
  qed
qed

theorem workout_sets_schema_rejects_set_insert_witness:
  "''workout_exercise_id'' \<notin> set (''id'' # map cname workout_sets_columns) \<and>
   runAsync sample_db (workoutSetInsert sample_user 1 (hd (sets (hd (activeExercises one_set_session))))) =
     Inl (NoSuchColumn ''workout_sets'' ''workout_exercise_id'') \<and>
   (\<exists>e. snd (saveWorkout sample_db sample_user 0 60000 one_set_session) = Inl e)"
proof -
  obtain tb where tb: "sample_db ''workout_sets'' = Some tb" "columns tb = workout_sets_columns"
    using sample_schema by (cases "sample_db ''workout_sets''") auto
  have "\<exists>ae\<in>set (activeExercises one_set_session). sets ae \<noteq> []"
    by (simp add: one_set_session_def addExercise_def startWorkout_def initial_screen_def)
  with workout_sets_schema_rejects_set_insert [where db = sample_db and tb = tb, OF tb,
      of sample_user 1 "hd (sets (hd (activeExercises one_set_session)))" one_set_session 0 60000]
    tb(2)
  show ?thesis by (simp add: column_names_def)
qed

section \<open>Personal records on the created schema\<close>

text \<open>
  What the evaluator computes when it runs: among the sets that count, \<^verbatim>\<open>maxWeightSet\<close>
  is the first of the heaviest ones, and a candidate beats the stored value only when it is
  strictly greater (or nothing is stored). A write on the created schema fails as soon as
  one exercise holds a set, and the evaluator skips every exercise without sets.
\<close>

lemma maxWeight_Max: "maxWeight s ss = Max (weight ` set (s # ss))"
proof -
  have "Max (set (weight s # map weight ss)) = fold max (map weight ss) (weight s)"
    by (rule Max.set_eq_fold)
  then show ?thesis by (simp add: maxWeight_def)
qed

lemma maxWeightSet_first_heaviest:
  assumes "ss \<noteq> []"
  shows "\<exists>i<length ss. maxWeightSet ss = Some (ss ! i) \<and>
           (\<forall>x\<in>set ss. weight x \<le> weight (ss ! i)) \<and>
           (\<forall>j<i. weight (ss ! j) < weight (ss ! i))"
proof -
  from assms obtain s rest where ss: "ss = s # rest" by (cases ss) auto
  let ?m = "Max (weight ` set ss)"
  have fin: "finite (weight ` set ss)" and ne: "weight ` set ss \<noteq> {}"
    using assms by simp_all
  have le: "\<forall>x\<in>set ss. weight x \<le> ?m"
    using fin by simp
  from Max_in [OF fin ne] obtain x where "x \<in> set ss" "weight x = ?m" by auto
  then have "find (\<lambda>x. weight x = ?m) ss \<noteq> None"
    by (auto simp: find_None_iff)
  then obtain y where y: "find (\<lambda>x. weight x = ?m) ss = Some y" by auto
  then obtain i where i: "i < length ss" "weight (ss ! i) = ?m" "y = ss ! i"
    "\<forall>j<i. weight (ss ! j) \<noteq> ?m"
    by (auto simp: find_Some_iff)
  have "\<forall>j<i. weight (ss ! j) < weight (ss ! i)"
  proof (intro allI impI)
    fix j assume j: "j < i"
    with i have ne: "weight (ss ! j) \<noteq> ?m" and "ss ! j \<in> set ss" by simp_all
    from bspec [OF le this(2)] have "weight (ss ! j) \<le> ?m" .
    with ne have "weight (ss ! j) < ?m"
      by (rule order.not_eq_order_implies_strict)
    with i(2) show "weight (ss ! j) < weight (ss ! i)" by simp
  qed
  moreover have "maxWeightSet ss = Some (ss ! i)"
    using y i(3) ss by (simp add: maxWeightSet_def maxWeight_Max)
  ultimately show ?thesis using i le by auto
qed

lemma beats_iff:
  "beats x None" "beats x (Some (SNum v)) \<longleftrightarrow> v < x"
  by (simp_all add: beats_def greater_than_def)







section \<open>A failed write keeps the session\<close>

text \<open>A session whose only exercise has lost its sets is written without an error.\<close>

lemma save_without_sets:
  "snd (saveWorkout sample_db sample_user 0 60000 (session_of [bench_with []])) = Inr 1"
  by code_simp

lemma end_without_sets:
  "snd (endWorkout (Some sample_user) (Some sample_db) 60000 (session_of [bench_with []])) =
     (resetWorkout (session_of [bench_with []]),
      [ShowSuccess ''Workout Complete!'' WorkoutCompleteMessage])"
  by code_simp

text \<open>
  C7. For a session with a start time and at least one exercise, with the user signed in
  and the database open: when the write fails, \<^verbatim>\<open>endWorkout\<close> leaves the screen state
  exactly as it was (still active, exercises, sets, start time and notes untouched) and
  shows the "Save Error" popup; and whenever \<^verbatim>\<open>endWorkout\<close> does change the state, the
  write has succeeded and the new state is the cleared one.
\<close>

theorem endWorkout_failure_keeps_session:
  assumes "activeExercises st \<noteq> []" and "workoutStartTime st = Some start"
  shows "(\<forall>d' e. saveWorkout d u start endTime st = (d', Inl e) \<longrightarrow>
            endWorkout (Some u) (Some d) endTime st =
              (Some d', st,
               [ShowError ''Save Error'' (Literal ''Failed to save workout. Please try again.'')])) \<and>
         (fst (snd (endWorkout (Some u) (Some d) endTime st)) \<noteq> st \<longrightarrow>
            (\<exists>d' workoutId. saveWorkout d u start endTime st = (d', Inr workoutId)) \<and>
            fst (snd (endWorkout (Some u) (Some d) endTime st)) = resetWorkout st)"
  using assms
  by (cases "saveWorkout d u start endTime st")
     (auto simp: endWorkout_def split: sum.splits prod.splits)

theorem endWorkout_failure_keeps_session_witness:
  "snd (saveWorkout sample_db sample_user 0 60000 one_set_session) =
     Inl (NoSuchColumn ''workout_sets'' ''workout_exercise_id'') \<and>
   snd (endWorkout (Some sample_user) (Some sample_db) 60000 one_set_session) =
     (one_set_session,
      [ShowError ''Save Error'' (Literal ''Failed to save workout. Please try again.'')]) \<and>
   isWorkoutActive one_set_session \<and> length (activeExercises one_set_session) = 1 \<and>
   fst (snd (endWorkout (Some sample_user) (Some sample_db) 60000 (session_of [bench_with []]))) =
     initial_screen \<and>
   (\<exists>d' workoutId. saveWorkout sample_db sample_user 0 60000 (session_of [bench_with []]) =
      (d', Inr workoutId))"
proof -
  have ne: "activeExercises one_set_session \<noteq> []"
    and start: "workoutStartTime one_set_session = Some 0"
    and rest: "isWorkoutActive one_set_session" "length (activeExercises one_set_session) = 1"
    by (simp_all add: one_set_session_def addExercise_def startWorkout_def initial_screen_def)
  obtain d' where "saveWorkout sample_db sample_user 0 60000 one_set_session =
      (d', Inl (NoSuchColumn ''workout_sets'' ''workout_exercise_id''))"
    using save_sample by (cases "saveWorkout sample_db sample_user 0 60000 one_set_session") auto
  with endWorkout_failure_keeps_session [OF ne start, of sample_db sample_user 60000] rest
  have failed: "snd (saveWorkout sample_db sample_user 0 60000 one_set_session) =
       Inl (NoSuchColumn ''workout_sets'' ''workout_exercise_id'') \<and>
     snd (endWorkout (Some sample_user) (Some sample_db) 60000 one_set_session) =
       (one_set_session,
        [ShowError ''Save Error'' (Literal ''Failed to save workout. Please try again.'')]) \<and>
     isWorkoutActive one_set_session \<and> length (activeExercises one_set_session) = 1"
    by simp
  let ?st = "session_of [bench_with []]"
  have ne': "activeExercises ?st \<noteq> []" and start': "workoutStartTime ?st = Some 0"
    and reset: "resetWorkout ?st = initial_screen" "initial_screen \<noteq> ?st"
    by (simp_all add: session_of_def bench_with_def startWorkout_def initial_screen_def
        resetWorkout_def)
  from end_without_sets reset
  have changed: "fst (snd (endWorkout (Some sample_user) (Some sample_db) 60000 ?st)) \<noteq> ?st"
    by simp
  from endWorkout_failure_keeps_session [OF ne' start', of sample_db sample_user 60000] changed reset
  have "fst (snd (endWorkout (Some sample_user) (Some sample_db) 60000 ?st)) = initial_screen \<and>
    (\<exists>d' workoutId. saveWorkout sample_db sample_user 0 60000 ?st = (d', Inr workoutId))"
    by simp
  with failed show ?thesis by simp
qed

section \<open>Ending an empty session\<close>

text \<open>
  C8. For a session without exercises, \<^verbatim>\<open>endWorkout\<close> writes nothing and clears nothing:
  the database and the screen state come back unchanged, whoever is signed in. With the
  user signed in, the database open and the session started, it shows the
  "End Empty Workout?" confirmation, whose Confirm button is the only thing that resets
  the session.
\<close>

theorem endWorkout_empty_session_asks_to_confirm:
  assumes "activeExercises st = []"
  shows "(\<forall>start. workoutStartTime st = Some start \<longrightarrow>
            endWorkout (Some u) (Some d) endTime st =
              (Some d, st,
               [ShowConfirmation ''End Empty Workout?''
                  (Literal ''You haven't added any exercises. Are you sure you want to end this workout?'')
                  ResetWorkout])) \<and>
         fst (endWorkout user db endTime st) = db \<and>
         fst (snd (endWorkout user db endTime st)) = st"
  using assms
  by (auto simp: endWorkout_def split: option.splits)

theorem endWorkout_empty_session_asks_to_confirm_witness:
  "activeExercises (startWorkout 0 initial_screen) = [] \<and>
   isWorkoutActive (startWorkout 0 initial_screen) \<and>
   snd (endWorkout (Some sample_user) (Some sample_db) 60000 (startWorkout 0 initial_screen)) =
     (startWorkout 0 initial_screen,
      [ShowConfirmation ''End Empty Workout?''
         (Literal ''You haven't added any exercises. Are you sure you want to end this workout?'')
         ResetWorkout]) \<and>
   stored_rows (fst (endWorkout (Some sample_user) (Some sample_db) 60000 (startWorkout 0 initial_screen)))
     ''workouts'' = []"
proof -
  have e: "activeExercises (startWorkout 0 initial_screen) = []"
    and s: "workoutStartTime (startWorkout 0 initial_screen) = Some 0"
    and a: "isWorkoutActive (startWorkout 0 initial_screen)"
    by (simp_all add: startWorkout_def initial_screen_def)
  have rows: "table_rows sample_db ''workouts'' = []" by code_simp
  from endWorkout_empty_session_asks_to_confirm [OF e, of sample_user sample_db 60000
      "Some sample_user" "Some sample_db"] s e a rows
  show ?thesis by (simp add: stored_rows_def)
qed

section \<open>Starting while a workout is active\<close>

text \<open>
  C6, as the code has it. \<^verbatim>\<open>startWorkout\<close> has no guard of its own: it always makes the
  session active, stores the current time as the start time and sets the displayed timer
  to 0, leaving exercises and notes alone; called on an active session it restarts the
  clock. The guard sits at the call site: \<^verbatim>\<open>loadTemplate\<close> calls it only when no workout
  is active (the start button is rendered only then, too), so loading a template into an
  active session keeps the session active with its start time and its timer.
\<close>

theorem startWorkout_restarts_unless_guarded:
  "isWorkoutActive (startWorkout now st) \<and>
   workoutStartTime (startWorkout now st) = Some now \<and>
   timer (startWorkout now st) = 0 \<and>
   activeExercises (startWorkout now st) = activeExercises st \<and>
   workoutNotes (startWorkout now st) = workoutNotes st \<and>
   (isWorkoutActive st \<longrightarrow>
      isWorkoutActive (loadTemplate now templateExercises st) \<and>
      workoutStartTime (loadTemplate now templateExercises st) = workoutStartTime st \<and>
      timer (loadTemplate now templateExercises st) = timer st)"
  by (simp add: startWorkout_def loadTemplate_def Let_def)

theorem startWorkout_restarts_unless_guarded_witness:
  "isWorkoutActive (tickTimer 3000 (startWorkout 0 initial_screen)) \<and>
   workoutStartTime (loadTemplate 5000 [] (tickTimer 3000 (startWorkout 0 initial_screen))) = Some 0 \<and>
   timer (loadTemplate 5000 [] (tickTimer 3000 (startWorkout 0 initial_screen))) = 3"
proof -
  have a: "isWorkoutActive (tickTimer 3000 (startWorkout 0 initial_screen))"
    and s: "workoutStartTime (tickTimer 3000 (startWorkout 0 initial_screen)) = Some 0"
    and t: "timer (tickTimer 3000 (startWorkout 0 initial_screen)) = 3"
    by (simp_all add: tickTimer_def startWorkout_def initial_screen_def)
  from startWorkout_restarts_unless_guarded
      [of 5000 "tickTimer 3000 (startWorkout 0 initial_screen)" "[]"] a s t
  show ?thesis by simp
qed

text \<open>
  The claim fails on a workout started at time 0 and showing 3 seconds: \<^verbatim>\<open>startWorkout\<close>
  at time 5000 changes the state, the start time becomes 5000 and the timer 0, and one
  second later the display shows 1 second where the untouched session shows 6.
\<close>

theorem startWorkout_while_active_counterexample:
  "isWorkoutActive (tickTimer 3000 (startWorkout 0 initial_screen)) \<and>
   workoutStartTime (tickTimer 3000 (startWorkout 0 initial_screen)) = Some 0 \<and>
   timer (tickTimer 3000 (startWorkout 0 initial_screen)) = 3 \<and>
   startWorkout 5000 (tickTimer 3000 (startWorkout 0 initial_screen)) \<noteq>
     tickTimer 3000 (startWorkout 0 initial_screen) \<and>
   workoutStartTime (startWorkout 5000 (tickTimer 3000 (startWorkout 0 initial_screen))) = Some 5000 \<and>
   timer (startWorkout 5000 (tickTimer 3000 (startWorkout 0 initial_screen))) = 0 \<and>
   timer (tickTimer 6000 (startWorkout 5000 (tickTimer 3000 (startWorkout 0 initial_screen)))) = 1 \<and>
   timer (tickTimer 6000 (tickTimer 3000 (startWorkout 0 initial_screen))) = 6"
  by (simp add: tickTimer_def startWorkout_def initial_screen_def)

section \<open>The rest timer's countdown\<close>

lemma ticks_stopped:
  "\<not> (isRunning t \<and> timeRemaining t > 0) \<Longrightarrow> ticks n t = (t, 0)"
  by (induction n) (auto simp: tick_def)

lemma ticks_running:
  "isRunning t \<Longrightarrow> 0 < timeRemaining t \<Longrightarrow>
   ticks n t =
     (if int n < timeRemaining t then (t\<lparr>timeRemaining := timeRemaining t - int n\<rparr>, 0)
      else (t\<lparr>isRunning := False, timeRemaining := 0\<rparr>, 1))"
proof (induction n arbitrary: t)
  case 0
  then show ?case by simp
next
  case (Suc n)
  show ?case
  proof (cases "timeRemaining t \<le> 1")
    case True
    with Suc.prems have "tick t = (t\<lparr>isRunning := False, timeRemaining := 0\<rparr>, True)"
      by (simp add: tick_def)
    moreover have "ticks n (t\<lparr>isRunning := False, timeRemaining := 0\<rparr>) =
        (t\<lparr>isRunning := False, timeRemaining := 0\<rparr>, 0)"
      by (rule ticks_stopped) simp
    ultimately show ?thesis using True Suc.prems by simp
  next
    case False
    with Suc.prems have step: "tick t = (t\<lparr>timeRemaining := timeRemaining t - 1\<rparr>, False)"
      by (simp add: tick_def)
    have "ticks n (t\<lparr>timeRemaining := timeRemaining t - 1\<rparr>) =
        (if int n < timeRemaining t - 1
         then (t\<lparr>timeRemaining := timeRemaining t - 1 - int n\<rparr>, 0)
         else (t\<lparr>isRunning := False, timeRemaining := 0\<rparr>, 1))"
      using Suc.IH [of "t\<lparr>timeRemaining := timeRemaining t - 1\<rparr>"] Suc.prems False by simp
    with step show ?thesis by (auto simp: algebra_simps)
  qed
qed

text \<open>
  C9. A run of the rest timer is started by \<^verbatim>\<open>handleStart\<close> on a stopped timer that shows
  \<open>d\<close> whole seconds, \<open>d > 0\<close> (the screen passes 60 or a set's positive rest time, and
  the timer's own controls select a preset or at least 10; at 0 no interval would be
  installed). After \<open>n\<close> wake-ups the timer shows \<open>d - n\<close> and is running while
  \<open>n < d\<close>, with no completion signal so far; from the \<open>d\<close>-th wake-up on it shows 0, is
  stopped, and \<^verbatim>\<open>onComplete\<close> has been called exactly once, however many more wake-ups
  follow.
\<close>

theorem rest_timer_counts_down_and_completes_once:
  assumes "\<not> isRunning t" and "timeRemaining t = d" and "0 < d"
  shows "ticks n (handleStart t) =
           (if int n < d then (t\<lparr>timeRemaining := d - int n, isRunning := True\<rparr>, 0)
            else (t\<lparr>timeRemaining := 0, isRunning := False\<rparr>, 1))"
proof -
  from assms have start: "handleStart t = t\<lparr>isRunning := True\<rparr>"
    by (simp add: handleStart_def)
  have "ticks n (t\<lparr>isRunning := True\<rparr>) =
      (if int n < timeRemaining (t\<lparr>isRunning := True\<rparr>)
       then (t\<lparr>isRunning := True, timeRemaining := timeRemaining (t\<lparr>isRunning := True\<rparr>) - int n\<rparr>, 0)
       else (t\<lparr>isRunning := True, isRunning := False, timeRemaining := 0\<rparr>, 1))"
    using assms by (intro ticks_running) simp_all
  with start assms show ?thesis by simp
qed

theorem rest_timer_counts_down_and_completes_once_witness:
  "ticks 2 (handleStart (mountRestTimer 3)) =
     (\<lparr>timeRemaining = 1, isRunning = True, selectedTime = 3\<rparr>, 0) \<and>
   ticks 3 (handleStart (mountRestTimer 3)) =
     (\<lparr>timeRemaining = 0, isRunning = False, selectedTime = 3\<rparr>, 1) \<and>
   ticks 7 (handleStart (mountRestTimer 3)) =
     (\<lparr>timeRemaining = 0, isRunning = False, selectedTime = 3\<rparr>, 1)"
proof -
  have a: "\<not> isRunning (mountRestTimer 3)" and b: "timeRemaining (mountRestTimer 3) = 3"
    and c: "(0::int) < 3"
    by (simp_all add: mountRestTimer_def)
  from rest_timer_counts_down_and_completes_once [OF a b c, of 2]
    rest_timer_counts_down_and_completes_once [OF a b c, of 3]
    rest_timer_counts_down_and_completes_once [OF a b c, of 7]
  show ?thesis by (simp add: mountRestTimer_def)
qed

end
